theory Spec2Isabelle
  imports Complex_Main "HOL-Library.Sublist"
begin

section \<open>Python values that fail: exceptions as results\<close>

text \<open>
  The notebooks are Python. A call that raises is modelled by a result in a sum type:
  \<open>Inl\<close> carries the exception, \<open>Inr\<close> the returned value.
\<close>

datatype py_error =
    RuntimeError string
  | KeyError string
  | ValueError string
  | InvalidArgumentError string
  | Raised string string  \<comment> \<open>any other exception: its class and its message\<close>

section \<open>The data notebook (3-data.ipynb): one-hot labels\<close>

text \<open>
  \<^verbatim>\<open>
  target_transform = Lambda(lambda y: torch.zeros(
      10, dtype=torch.float).scatter_(dim=0, index=torch.tensor(y), value=1))
  \<close>
  \<open>torch.zeros(n, dtype=torch.float)\<close> is a vector of \<open>n\<close> zeros. On a one-dimensional
  tensor, \<open>scatter_(dim=0, index=i, value=v)\<close> (here \<open>scatter_dim0\<close>: an Isabelle name
  cannot end with an underscore) with a scalar index writes \<open>v\<close> at position
  \<open>i\<close>; an index below 0 or not below the size is refused with a RuntimeError (scatter
  does not count negative indices from the end). The entries 0.0 and 1.0 are exact
  in single precision, so they are modelled by the reals 0 and 1.
\<close>

definition torch_zeros :: "nat \<Rightarrow> real list" where
  "torch_zeros n = replicate n 0"

definition scatter_dim0 :: "real list \<Rightarrow> int \<Rightarrow> real \<Rightarrow> py_error + real list" where
  "scatter_dim0 self index val =
     (if 0 \<le> index \<and> index < int (length self)
      then Inr (self[nat index := val])
      else Inl (RuntimeError ''index out of bounds for dimension 0''))"

text \<open>The lambda of the last cell, \<open>target_transform\<close>.\<close>

definition target_transform :: "int \<Rightarrow> py_error + real list" where
  "target_transform y = scatter_dim0 (torch_zeros 10) y 1"

text \<open>
  The same lambda, written with positional arguments, is passed to the dataset \<open>ds\<close>:
  \<^verbatim>\<open>
  target_transform=Lambda(lambda y: torch.zeros(10, dtype=torch.float).scatter_(0, torch.tensor(y), value=1))
  \<close>
\<close>

definition ds_target_transform :: "int \<Rightarrow> py_error + real list" where
  "ds_target_transform y = scatter_dim0 (torch_zeros 10) y 1"

text \<open>
  The names of the classes, a dictionary literal (its items in the order written), and
  the lookup \<open>labels_map[label]\<close> of the cell that shows nine samples; a missing key
  raises KeyError.
  \<^verbatim>\<open>
  labels_map = {
      0: "T-Shirt",
      1: "Trouser",
      2: "Pullover",
      3: "Dress",
      4: "Coat",
      5: "Sandal",
      6: "Shirt",
      7: "Sneaker",
      8: "Bag",
      9: "Ankle Boot",
  }
  \<close>
\<close>

definition labels_map :: "(int \<times> string) list" where
  "labels_map =
     [(0, ''T-Shirt''), (1, ''Trouser''), (2, ''Pullover''), (3, ''Dress''), (4, ''Coat''),
      (5, ''Sandal''), (6, ''Shirt''), (7, ''Sneaker''), (8, ''Bag''), (9, ''Ankle Boot'')]"

definition labels_map_getitem :: "int \<Rightarrow> py_error + string" where
  "labels_map_getitem label =
     (case map_of labels_map label of
        None \<Rightarrow> Inl (KeyError ''label'')
      | Some name \<Rightarrow> Inr name)"

section \<open>The course-module metadata files (index.yml)\<close>

text \<open>
  The YAML files hold data only. A parsed document is a tree of scalars (strings),
  sequences and mappings; a mapping keeps its keys in file order. Block scalars
  (\<open>|\<close>) keep their line breaks, quoted scalars lose their quotes and keep their spaces.
\<close>

datatype yaml =
    YStr string
  | YSeq "yaml list"
  | YMap "(string \<times> yaml) list"

text \<open>\<open>learn-pr/advocates/responsible-bots-introduction/index.yml\<close>\<close>

definition responsible_bots_introduction_index :: yaml where
  "responsible_bots_introduction_index = YMap [
     (''uid'', YStr ''learn.advocates.responsible-bots-introduction''),
     (''metadata'', YMap [
        (''title'', YStr ''Introduction to responsible bots''),
        (''description'', YStr ''Learn about responsible bots. Understand the principles of responsible conversational AI, and find out how to implement those principles in bots.''),
        (''ms.service'', YStr ''cognitive-services''),
        (''ms.date'', YStr ''02/06/2023''),
        (''author'', YStr ''JKirsch1''),
        (''ms.author'', YStr ''chnoring''),
        (''ms.topic'', YStr ''interactive-tutorial''),
        (''ms.custom'', YStr ''team=nextgen'')]),
     (''title'', YStr ''Introduction to responsible bots''),
     (''summary'', YStr ''Find out how to make a bot responsible. Learn about responsible conversational AI. Discover Azure Cognitive Services tools that help make bots engaging and trustworthy.''),
     (''abstract'', YStr ''In this module, you'll:\<newline>- Understand the principles of developing responsible bots.\<newline>- Learn the basic building blocks for creating conversational UIs.\<newline>- Explore how your bot can be more culturally sensitive.\<newline>''),
     (''iconUrl'', YStr ''/training/achievements/responsible-bots-introduction.svg''),
     (''levels'', YSeq [YStr ''beginner'']),
     (''roles'', YSeq [YStr ''developer'', YStr ''student'']),
     (''products'', YSeq [YStr ''azure'', YStr ''azure-cognitive-services'']),
     (''prerequisites'', YStr ''- None\<newline>''),
     (''subjects'', YSeq [YStr ''artificial-intelligence'']),
     (''units'', YSeq [
        YStr ''learn.advocates.responsible-bots-introduction.1-introduction'',
        YStr ''learn.advocates.responsible-bots-introduction.2-what-is-responsible-bot'',
        YStr ''learn.advocates.responsible-bots-introduction.3-how-responsible-bot-works'',
        YStr ''learn.advocates.responsible-bots-introduction.4-when-to-use-responsible-bot'',
        YStr ''learn.advocates.responsible-bots-introduction.5-knowledge-check'',
        YStr ''learn.advocates.responsible-bots-introduction.6-summary'']),
     (''badge'', YMap [
        (''uid'', YStr ''learn.advocates.responsible-bots-introduction.badge'')])]"

text \<open>The module file whose uid is \<open>learn.azure.ai-machine-learning-fundamentals\<close>.\<close>

definition ai_machine_learning_fundamentals_index :: yaml where
  "ai_machine_learning_fundamentals_index = YMap [
     (''uid'', YStr ''learn.azure.ai-machine-learning-fundamentals''),
     (''metadata'', YMap [
        (''title'', YStr ''Choose the best AI service for your needs''),
        (''description'', YStr ''Examine Azure's AI services, and choose the right one for your company. Prepare for AZ-900.''),
        (''ms.service'', YStr ''cognitive-services''),
        (''ms.date'', YStr ''02/14/2023''),
        (''author'', YStr ''wwlpublish''),
        (''ms.author'', YStr ''robbarefoot''),
        (''ms.topic'', YStr ''interactive-tutorial'')]),
     (''title'', YStr ''Choose the best AI service for your needs''),
     (''summary'', YStr ''Examine Azure's AI services, and choose the right one for your company.''),
     (''abstract'', YStr ''After you've completed this module, you will be able to:\<newline>  - Choose the Azure AI services that best address your company's business challenges.\<newline>''),
     (''prerequisites'', YStr ''- Familiarity with the concept of *application programming interfaces*, or APIs. Programmers use APIs to interact with the functionality that's contained in code libraries.\<newline>- Familiarity with the following additional concepts:\<newline>     - *Web API*: An API that's accessible from servers that accept requests via HTTP.\<newline>     - *Web API endpoint*: The location of the code library.\<newline>     - *REST API*: The design of the URL style that's used to expose the API's functionality.\<newline>''),
     (''iconUrl'', YStr ''/training/achievements/ai-machine-learning-fundamentals.svg''),
     (''levels'', YSeq [YStr ''beginner'']),
     (''roles'', YSeq [YStr ''administrator'', YStr ''business-owner'', YStr ''developer'',
        YStr ''student'', YStr ''technology-manager'']),
     (''products'', YSeq [YStr ''azure'', YStr ''azure-bot-service'',
        YStr ''azure-cognitive-services'', YStr ''azure-machine-learning'']),
     (''subjects'', YSeq [YStr ''artificial-intelligence'']),
     (''units'', YSeq [
        YStr ''learn.azure.ai-machine-learning-fundamentals.introduction'',
        YStr ''learn.azure.ai-machine-learning-fundamentals.identify-product-options'',
        YStr ''learn.azure.ai-machine-learning-fundamentals.analyze-decision-criteria'',
        YStr ''learn.azure.ai-machine-learning-fundamentals.use-machine-learning'',
        YStr '' learn.azure.ai-machine-learning-fundamentals.use-cognitive-services'',
        YStr ''learn.azure.ai-machine-learning-fundamentals.use-bot-services'',
        YStr ''learn.azure.ai-machine-learning-fundamentals.knowledge-check'',
        YStr ''learn.azure.ai-machine-learning-fundamentals.summary'']),
     (''badge'', YMap [
        (''uid'', YStr ''learn.azure.ai-machine-learning-fundamentals.badge'')])]"

text \<open>Every module file of the repository.\<close>

definition module_files :: "yaml list" where
  "module_files = [responsible_bots_introduction_index, ai_machine_learning_fundamentals_index]"

text \<open>Reading a document: the value under a top-level key, as a string or as a list of strings.\<close>

fun yaml_get :: "yaml \<Rightarrow> string \<Rightarrow> yaml option" where
  "yaml_get (YMap kvs) k = map_of kvs k"
| "yaml_get (YStr s) k = None"
| "yaml_get (YSeq xs) k = None"

fun as_string :: "yaml \<Rightarrow> string option" where
  "as_string (YStr s) = Some s"
| "as_string (YSeq xs) = None"
| "as_string (YMap kvs) = None"

fun as_strings :: "yaml list \<Rightarrow> string list option" where
  "as_strings [] = Some []"
| "as_strings (x # xs) =
     (case as_string x of
        None \<Rightarrow> None
      | Some s \<Rightarrow> (case as_strings xs of None \<Rightarrow> None | Some ss \<Rightarrow> Some (s # ss)))"

definition get_string :: "yaml \<Rightarrow> string \<Rightarrow> string option" where
  "get_string doc k = (case yaml_get doc k of Some (YStr s) \<Rightarrow> Some s | _ \<Rightarrow> None)"

definition get_string_list :: "yaml \<Rightarrow> string \<Rightarrow> string list option" where
  "get_string_list doc k = (case yaml_get doc k of Some (YSeq xs) \<Rightarrow> as_strings xs | _ \<Rightarrow> None)"

text \<open>
  The registration fields of a module: a title and a summary that are strings, and
  lists of units and of products that are not empty.
\<close>

definition module_conforms :: "yaml \<Rightarrow> bool" where
  "module_conforms doc =
     (case (get_string doc ''title'', get_string doc ''summary'',
            get_string_list doc ''units'', get_string_list doc ''products'') of
        (Some t, Some s, Some us, Some ps) \<Rightarrow> us \<noteq> [] \<and> ps \<noteq> []
      | _ \<Rightarrow> False)"

text \<open>
  Unit identifiers: a unit belongs to a module when its identifier is the module's
  uid, a dot, and a unit name that is not empty. \<open>lstrip\<close> removes leading whitespace
  as Python's \<open>str.lstrip()\<close> does on ASCII text.
\<close>

definition is_space :: "char \<Rightarrow> bool" where
  "is_space c = (c \<in> set [CHR '' '', CHR 0x09, CHR 0x0A, CHR 0x0B, CHR 0x0C, CHR 0x0D])"

definition lstrip :: "string \<Rightarrow> string" where
  "lstrip s = dropWhile is_space s"

definition unit_of_module :: "string \<Rightarrow> string \<Rightarrow> bool" where
  "unit_of_module uid u = (prefix (uid @ ''.'') u \<and> length (uid @ ''.'') < length u)"

definition units_prefixed :: "(string \<Rightarrow> string) \<Rightarrow> yaml \<Rightarrow> bool" where
  "units_prefixed strip doc =
     (case (get_string doc ''uid'', get_string_list doc ''units'') of
        (Some uid, Some us) \<Rightarrow> list_all (\<lambda>u. unit_of_module uid (strip u)) us
      | _ \<Rightarrow> False)"

section \<open>Floating-point numbers\<close>

text \<open>
  TensorFlow computes the notebook's tensors in single precision (\<open>float32\<close>), pandas
  and scikit-learn compute in double precision (\<open>float64\<close>). A floating-point value is a
  real number, an infinity or not-a-number; the two zeros are not told apart. A finite
  value of a format with \<open>p\<close> bits of precision is \<open>m 2\<^sup>e\<close> with \<open>|m| < 2\<^sup>p\<close>, with
  \<open>e\<close> not below the exponent \<open>qmin\<close> of the smallest subnormal, and below \<open>2\<close> to the
  power \<open>emax\<close> in magnitude.
\<close>

datatype fp = Val real | PosInf | NegInf | NaN

definition is_fp :: "nat \<Rightarrow> int \<Rightarrow> int \<Rightarrow> real \<Rightarrow> bool" where
  "is_fp p qmin emax x =
     (\<exists>m e. x = of_int m * 2 powr of_int e \<and> \<bar>m\<bar> < 2 ^ p \<and> qmin \<le> e
        \<and> \<bar>x\<bar> < 2 powr of_int emax)"

text \<open>
  Rounding to nearest, ties to the even neighbour: the real \<open>x\<close> is scaled by the
  spacing \<open>2\<^sup>k\<close> of the format around it, rounded to an integer, and scaled back; a
  result that reaches \<open>2\<close> to the power \<open>emax\<close> is an infinity.
\<close>

definition round_half_even :: "real \<Rightarrow> int" where
  "round_half_even q =
     (let n = \<lfloor>q\<rfloor>; r = q - of_int n
      in if r < 1 / 2 then n else if 1 / 2 < r then n + 1 else if even n then n else n + 1)"

definition round_fp :: "nat \<Rightarrow> int \<Rightarrow> int \<Rightarrow> real \<Rightarrow> fp" where
  "round_fp p qmin emax x =
     (if x = 0 then Val 0
      else
        let k = max (\<lfloor>log 2 \<bar>x\<bar>\<rfloor> - (int p - 1)) qmin;
            y = of_int (round_half_even (x / 2 powr of_int k)) * 2 powr of_int k
        in if 2 powr of_int emax \<le> \<bar>y\<bar> then (if 0 < x then PosInf else NegInf) else Val y)"

definition round32 :: "real \<Rightarrow> fp" where
  "round32 = round_fp 24 (- 149) 128"

definition round64 :: "real \<Rightarrow> fp" where
  "round64 = round_fp 53 (- 1074) 1024"


definition is_float64 :: "real \<Rightarrow> bool" where
  "is_float64 = is_fp 53 (- 1074) 1024"

text \<open>
  The arithmetic of IEEE 754, for a rounding \<open>rnd\<close>: the exact result is rounded; an
  infinity absorbs finite values; \<open>\<infinity> - \<infinity>\<close>, \<open>0 \<times> \<infinity>\<close>, \<open>0 / 0\<close> and \<open>\<infinity> / \<infinity>\<close> are
  not-a-number, which every operation passes on. A zero divisor counts as \<open>+0\<close>.
  With \<open>rnd = Val\<close> nothing is rounded: that is exact arithmetic.
\<close>

fun fp_neg :: "fp \<Rightarrow> fp" where
  "fp_neg (Val x) = Val (- x)"
| "fp_neg PosInf = NegInf"
| "fp_neg NegInf = PosInf"
| "fp_neg NaN = NaN"

fun fp_sign :: "fp \<Rightarrow> real" where
  "fp_sign (Val x) = sgn x"
| "fp_sign PosInf = 1"
| "fp_sign NegInf = - 1"
| "fp_sign NaN = 0"

definition fp_inf :: "real \<Rightarrow> fp" where
  "fp_inf s = (if s = 0 then NaN else if 0 < s then PosInf else NegInf)"

fun fp_add :: "(real \<Rightarrow> fp) \<Rightarrow> fp \<Rightarrow> fp \<Rightarrow> fp" where
  "fp_add rnd (Val x) (Val y) = rnd (x + y)"
| "fp_add rnd NaN b = NaN"
| "fp_add rnd a NaN = NaN"
| "fp_add rnd PosInf NegInf = NaN"
| "fp_add rnd NegInf PosInf = NaN"
| "fp_add rnd PosInf b = PosInf"
| "fp_add rnd a PosInf = PosInf"
| "fp_add rnd NegInf b = NegInf"
| "fp_add rnd a NegInf = NegInf"

definition fp_sub :: "(real \<Rightarrow> fp) \<Rightarrow> fp \<Rightarrow> fp \<Rightarrow> fp" where
  "fp_sub rnd a b = fp_add rnd a (fp_neg b)"

fun fp_mul :: "(real \<Rightarrow> fp) \<Rightarrow> fp \<Rightarrow> fp \<Rightarrow> fp" where
  "fp_mul rnd (Val x) (Val y) = rnd (x * y)"
| "fp_mul rnd NaN b = NaN"
| "fp_mul rnd a NaN = NaN"
| "fp_mul rnd a b = fp_inf (fp_sign a * fp_sign b)"

fun fp_div :: "(real \<Rightarrow> fp) \<Rightarrow> fp \<Rightarrow> fp \<Rightarrow> fp" where
  "fp_div rnd (Val x) (Val y) = (if y = 0 then fp_inf (sgn x) else rnd (x / y))"
| "fp_div rnd NaN b = NaN"
| "fp_div rnd a NaN = NaN"
| "fp_div rnd (Val x) b = Val 0"
| "fp_div rnd a (Val y) = fp_inf (fp_sign a * (if y < 0 then - 1 else 1))"
| "fp_div rnd a b = NaN"

fun fp_less :: "fp \<Rightarrow> fp \<Rightarrow> bool" where
  "fp_less (Val x) (Val y) = (x < y)"
| "fp_less NaN b = False"
| "fp_less a NaN = False"
| "fp_less a NegInf = False"
| "fp_less PosInf b = False"
| "fp_less a b = True"

fun is_finite :: "fp \<Rightarrow> bool" where
  "is_finite (Val x) = True"
| "is_finite a = False"

text \<open>Matrices are lists of rows.\<close>

definition ncols :: "'a list list \<Rightarrow> nat" where
  "ncols M = (case M of [] \<Rightarrow> 0 | r # rs \<Rightarrow> length r)"

definition rectangular :: "'a list list \<Rightarrow> bool" where
  "rectangular M = list_all (\<lambda>r. length r = ncols M) M"

definition column :: "'a list list \<Rightarrow> nat \<Rightarrow> 'a list" where
  "column M j = map (\<lambda>r. r ! j) M"

definition all_finite :: "fp list list \<Rightarrow> bool" where
  "all_finite M = list_all (list_all is_finite) M"

section \<open>The clustering notebook (01-clustering-introduction.ipynb): the features table\<close>

text \<open>
  \<^verbatim>\<open>
  data = pd.read_csv('seeds.csv')
  features = data[data.columns[0:6]]
  ...
  scaled_features = MinMaxScaler().fit_transform(features[data.columns[0:6]])
  ...
      kmeans.fit(features.values)
  \<close>
  A data frame is its column labels, in order, and its rows; \<open>seeds.csv\<close> holds numbers
  only, so a cell is a real. \<open>read_csv\<close> returns a frame whose labels are distinct (it
  renames repeated header names) and whose rows all have one cell per column: a
  well-formed frame. pandas builds no other frames, and the operations below are meant
  on well-formed frames only.
\<close>

record dataframe =
  columns :: "string list"
  data_rows :: "real list list"

definition wf_dataframe :: "dataframe \<Rightarrow> bool" where
  "wf_dataframe df =
     (distinct (columns df) \<and> list_all (\<lambda>r. length r = length (columns df)) (data_rows df))"

text \<open>
  \<open>data.columns[0:6]\<close>: a slice with bounds that are not negative; bounds beyond the
  end are cut, as Python cuts them.
\<close>

definition index_slice :: "nat \<Rightarrow> nat \<Rightarrow> 'a list \<Rightarrow> 'a list" where
  "index_slice start stop xs = take (stop - start) (drop start xs)"

text \<open>
  \<open>df[labels]\<close> with a list of labels: the columns carrying each label, in the order of
  the labels; a label that no column carries raises KeyError.
\<close>

definition label_positions :: "string list \<Rightarrow> string \<Rightarrow> nat list" where
  "label_positions cols l = filter (\<lambda>j. cols ! j = l) [0..<length cols]"

definition getitem_labels :: "dataframe \<Rightarrow> string list \<Rightarrow> py_error + dataframe" where
  "getitem_labels df labels =
     (case filter (\<lambda>l. l \<notin> set (columns df)) labels of
        [] \<Rightarrow>
          (let idx = concat (map (label_positions (columns df)) labels)
           in Inr \<lparr>columns = map (\<lambda>j. columns df ! j) idx,
                   data_rows = map (\<lambda>r. map (\<lambda>j. r ! j) idx) (data_rows df)\<rparr>)
      | l # ls \<Rightarrow> Inl (KeyError l))"

text \<open>\<open>df.values\<close>: the rows as a matrix.\<close>

definition df_values :: "dataframe \<Rightarrow> real list list" where
  "df_values df = data_rows df"

text \<open>\<open>features = data[data.columns[0:6]]\<close>\<close>

definition features_of :: "dataframe \<Rightarrow> py_error + dataframe" where
  "features_of data = getitem_labels data (index_slice 0 6 (columns data))"

text \<open>The argument of the scaler, \<open>features[data.columns[0:6]]\<close>.\<close>

definition scaler_input :: "dataframe \<Rightarrow> dataframe \<Rightarrow> py_error + dataframe" where
  "scaler_input data features = getitem_labels features (index_slice 0 6 (columns data))"

section \<open>The clustering notebook: scaling and principal components\<close>

text \<open>
  \<^verbatim>\<open>
  scaled_features = MinMaxScaler().fit_transform(features[data.columns[0:6]])
  pca = PCA(n_components=2).fit(scaled_features)
  features_2d = pca.transform(scaled_features)
  \<close>
  \<open>MinMaxScaler\<close> and \<open>PCA\<close> are scikit-learn's; their code is not part of this
  repository, and they are modelled here from scikit-learn's documentation and the
  arithmetic its \<open>MinMaxScaler\<close> performs, in \<open>float64\<close>:
  \<^verbatim>\<open>
  data_min = np.nanmin(X, axis=0)
  data_max = np.nanmax(X, axis=0)
  data_range = data_max - data_min
  self.scale_ = (feature_range[1] - feature_range[0]) / _handle_zeros_in_scale(data_range)
  self.min_ = feature_range[0] - data_min * self.scale_
  ...
  X *= self.scale_
  X += self.min_
  \<close>
  with the default \<open>feature_range = (0, 1)\<close> and no clipping (\<open>clip=False\<close>).
  \<open>_handle_zeros_in_scale\<close> replaces a range below \<open>10 * eps\<close> by \<open>1.0\<close>, where
  \<open>eps\<close> is \<open>2\<^sup>-\<^sup>5\<^sup>2\<close>. The input is a matrix of finite numbers (the cells of the frame);
  an empty matrix and a matrix without columns are refused with a \<open>ValueError\<close>. The
  rounding \<open>rnd\<close> of the arithmetic is a parameter: \<open>round64\<close> is what scikit-learn
  computes, \<open>Val\<close> is the same formula in exact arithmetic.
\<close>

definition list_min :: "real list \<Rightarrow> real" where
  "list_min xs = foldl min (hd xs) (tl xs)"

definition list_max :: "real list \<Rightarrow> real" where
  "list_max xs = foldl max (hd xs) (tl xs)"

definition handle_zeros_in_scale :: "fp \<Rightarrow> fp" where
  "handle_zeros_in_scale scale = (if fp_less scale (Val (10 * 2 powr - 52)) then Val 1 else scale)"

definition minmax_fit_column :: "(real \<Rightarrow> fp) \<Rightarrow> real list \<Rightarrow> fp \<times> fp" where
  "minmax_fit_column rnd col =
     (let data_min = list_min col;
          data_max = list_max col;
          data_range = fp_sub rnd (Val data_max) (Val data_min);
          scale = fp_div rnd (Val 1) (handle_zeros_in_scale data_range);
          min_adj = fp_sub rnd (Val 0) (fp_mul rnd (Val data_min) scale)
      in (scale, min_adj))"

definition minmax_fit :: "(real \<Rightarrow> fp) \<Rightarrow> real list list \<Rightarrow> py_error + (fp \<times> fp) list" where
  "minmax_fit rnd X =
     (if X = [] then Inl (ValueError ''Found array with 0 sample(s)'')
      else if \<not> rectangular X then Inl (ValueError ''inhomogeneous shape'')
      else if ncols X = 0 then Inl (ValueError ''Found array with 0 feature(s)'')
      else Inr (map (\<lambda>j. minmax_fit_column rnd (column X j)) [0..<ncols X]))"

definition minmax_entry :: "(real \<Rightarrow> fp) \<Rightarrow> real \<Rightarrow> fp \<times> fp \<Rightarrow> fp" where
  "minmax_entry rnd x param =
     (case param of (scale, min_adj) \<Rightarrow> fp_add rnd (fp_mul rnd (Val x) scale) min_adj)"

definition minmax_transform :: "(real \<Rightarrow> fp) \<Rightarrow> (fp \<times> fp) list \<Rightarrow> real list list \<Rightarrow> fp list list" where
  "minmax_transform rnd params X = map (\<lambda>row. map2 (minmax_entry rnd) row params) X"

definition minmax_fit_transform :: "(real \<Rightarrow> fp) \<Rightarrow> real list list \<Rightarrow> py_error + fp list list" where
  "minmax_fit_transform rnd X =
     (case minmax_fit rnd X of
        Inl e \<Rightarrow> Inl e
      | Inr params \<Rightarrow> Inr (minmax_transform rnd params X))"

text \<open>
  \<open>PCA(n_components=2)\<close> centres the columns and projects every row on the first two
  principal axes, which it gets from a singular value decomposition (LAPACK). The
  numerics are a parameter \<open>linalg\<close>: the mean of a column, the principal axes of a
  matrix, and the projection of a row, given the means, on an axis. What is modelled is
  the flow of the matrices and the checks of the input that scikit-learn documents:
  \<open>fit\<close> and \<open>transform\<close> refuse an empty matrix, an infinity or not-a-number, \<open>fit\<close>
  refuses \<open>n_components\<close> above \<open>min(n_samples, n_features)\<close>, and \<open>transform\<close> refuses a
  matrix whose number of columns differs from the fitted one. LAPACK returns
  \<open>min(n_samples, n_features)\<close> axes; that is a hypothesis on \<open>principal_axes\<close> where
  it is needed. (Rows of unequal length, which NumPy does not take for a matrix, are
  refused too.)
\<close>

record linalg =
  col_mean :: "fp list \<Rightarrow> fp"
  principal_axes :: "fp list list \<Rightarrow> fp list list"
  project :: "fp list \<Rightarrow> fp list \<Rightarrow> fp list \<Rightarrow> fp"

record pca_model =
  pca_mean :: "fp list"
  pca_components :: "fp list list"

definition pca_fit :: "linalg \<Rightarrow> nat \<Rightarrow> fp list list \<Rightarrow> py_error + pca_model" where
  "pca_fit la n_components X =
     (if X = [] then Inl (ValueError ''Found array with 0 sample(s)'')
      else if \<not> rectangular X then Inl (ValueError ''inhomogeneous shape'')
      else if ncols X = 0 then Inl (ValueError ''Found array with 0 feature(s)'')
      else if \<not> all_finite X then Inl (ValueError ''Input X contains NaN or infinity'')
      else if min (length X) (ncols X) < n_components
        then Inl (ValueError ''n_components must be between 0 and min(n_samples, n_features)'')
      else Inr \<lparr>pca_mean = map (\<lambda>j. col_mean la (column X j)) [0..<ncols X],
               pca_components = take n_components (principal_axes la X)\<rparr>)"

definition pca_transform :: "linalg \<Rightarrow> pca_model \<Rightarrow> fp list list \<Rightarrow> py_error + fp list list" where
  "pca_transform la pca X =
     (if X = [] then Inl (ValueError ''Found array with 0 sample(s)'')
      else if \<not> rectangular X then Inl (ValueError ''inhomogeneous shape'')
      else if \<not> all_finite X then Inl (ValueError ''Input X contains NaN or infinity'')
      else if ncols X \<noteq> length (pca_mean pca)
        then Inl (ValueError ''X has a different number of features than PCA was fitted with'')
      else Inr (map (\<lambda>row. map (project la row (pca_mean pca)) (pca_components pca)) X))"

definition two_values :: "real list \<Rightarrow> bool" where
  "two_values col = (\<exists>a \<in> set col. \<exists>b \<in> set col. a \<noteq> b)"

definition in_unit_interval :: "fp \<Rightarrow> bool" where
  "in_unit_interval v = (case v of Val y \<Rightarrow> 0 \<le> y \<and> y \<le> 1 | _ \<Rightarrow> False)"

text \<open>
  The value of \<open>scaled_features\<close>, and the cell as a whole: the scaler receives
  \<open>features[data.columns[0:6]]\<close>, and both \<open>fit\<close> and \<open>transform\<close> of the PCA receive
  \<open>scaled_features\<close>.
\<close>

definition pca_stage :: "linalg \<Rightarrow> fp list list \<Rightarrow> py_error + fp list list \<times> pca_model \<times> fp list list" where
  "pca_stage la scaled_features =
     (case pca_fit la 2 scaled_features of
        Inl e \<Rightarrow> Inl e
      | Inr pca \<Rightarrow>
     (case pca_transform la pca scaled_features of
        Inl e \<Rightarrow> Inl e
      | Inr features_2d \<Rightarrow> Inr (scaled_features, pca, features_2d)))"

definition scaled_features_of :: "dataframe \<Rightarrow> dataframe \<Rightarrow> py_error + fp list list" where
  "scaled_features_of data features =
     (case scaler_input data features of
        Inl e \<Rightarrow> Inl e
      | Inr selected \<Rightarrow> minmax_fit_transform round64 (df_values selected))"

definition preprocess :: "linalg \<Rightarrow> dataframe \<Rightarrow> dataframe \<Rightarrow> py_error + fp list list \<times> pca_model \<times> fp list list" where
  "preprocess la data features =
     (case scaled_features_of data features of
        Inl e \<Rightarrow> Inl e
      | Inr scaled_features \<Rightarrow> pca_stage la scaled_features)"

text \<open>
  One instance of the numerics, for examples: the principal axes are the coordinate
  axes, sums are taken from left to right.
\<close>

definition fp_sum :: "fp list \<Rightarrow> fp" where
  "fp_sum xs = foldl (fp_add round64) (Val 0) xs"

definition axis_linalg :: linalg where
  "axis_linalg =
     \<lparr>col_mean = (\<lambda>col. fp_div round64 (fp_sum col) (Val (real (length col)))),
      principal_axes = (\<lambda>M. map (\<lambda>i. map (\<lambda>j. if i = j then Val 1 else Val 0) [0..<ncols M])
                                [0..<min (length M) (ncols M)]),
      project = (\<lambda>row mean axis.
        fp_sum (map2 (fp_mul round64) (map2 (fp_sub round64) row mean) axis))\<rparr>"

section \<open>Notebook cells as programs over a library\<close>

text \<open>
  The sections above give the arithmetic of single calls: a one-hot vector, a
  selection of columns, a scaling. This one follows whole cells.

  Every code cell of the notebooks is a sequence of calls into libraries (pandas,
  scikit-learn, matplotlib, torchvision, TensorFlow). To follow control through a cell
  whatever the libraries do, the libraries are a parameter: a cell is a function of the
  library and of the world it runs in (files, network, random state, figures), and
  returns what the cell binds together with the new world.

  A Python value is a literal of the notebook or an object of a library, which the
  notebook only passes around.
\<close>

datatype 'o pyval =
    PNone
  | PBool bool
  | PInt int
  | PFloat real
  | PStr string
  | PList "'o pyval list"
  | PTuple "'o pyval list"
  | PDict "('o pyval \<times> 'o pyval) list"
  | PSlice int int
  | PSliceAll  \<comment> \<open>the slice \<open>:\<close>\<close>
  | PRange int int
  | PClosure string  \<comment> \<open>a function written in the notebook, named by its source text\<close>
  | PObj 'o

datatype 'o arg = Pos "'o pyval" | Kw string "'o pyval"

text \<open>
  A computation either raises (\<open>Inl\<close>) or returns (\<open>Inr\<close>), and changes the world.
  \<open>bind_py\<close> is the sequencing of two statements: when the first raises, the second
  does not run and the exception is the result.
\<close>

type_synonym ('a, 'w) py = "'w \<Rightarrow> (py_error + 'a) \<times> 'w"

definition return_py :: "'a \<Rightarrow> ('a, 'w) py" where
  "return_py a = (\<lambda>w. (Inr a, w))"

definition bind_py :: "('a, 'w) py \<Rightarrow> ('a \<Rightarrow> ('b, 'w) py) \<Rightarrow> ('b, 'w) py" where
  "bind_py m k = (\<lambda>w. case m w of (Inl e, w') \<Rightarrow> (Inl e, w') | (Inr a, w') \<Rightarrow> k a w')"

text \<open>
  The library stands for everything outside the text of the notebook: the packages and
  Python's own runtime. What a cell can ask of it: import a module, read an attribute,
  call a callable, subscript an object (\<open>obj[key]\<close>, also on a dictionary), assign to a
  subscript (\<open>obj[key] = value\<close>), call a built-in function (\<open>len\<close>, \<open>iter\<close>,
  \<open>next\<close>), print a value, unpack a value into two names (\<open>a, b = value\<close>: the value is
  iterated and must yield exactly two items), format a value inside an f-string, run a
  line magic (\<open>%matplotlib inline\<close>), run a shell command (\<open>!wget ...\<close>), and enter and
  leave a \<open>tf.GradientTape\<close>. Each of them may raise, except two:
  \<^item> \<open>system\<close>: IPython runs the command of a \<open>!\<close> line in a subshell and stores its exit
    status in \<open>_exit_code\<close>; a command that fails raises nothing;
  \<^item> \<open>tape_exit\<close>: \<open>GradientTape.__exit__\<close> stops the recording and returns \<open>None\<close>, so it
    neither swallows nor replaces an exception of the block.
\<close>

record ('o, 'w) library =
  import_module :: "string \<Rightarrow> ('o pyval, 'w) py"
  getattr :: "'o pyval \<Rightarrow> string \<Rightarrow> ('o pyval, 'w) py"
  call :: "'o pyval \<Rightarrow> 'o arg list \<Rightarrow> ('o pyval, 'w) py"
  getitem :: "'o pyval \<Rightarrow> 'o pyval \<Rightarrow> ('o pyval, 'w) py"
  setitem :: "'o pyval \<Rightarrow> 'o pyval \<Rightarrow> 'o pyval \<Rightarrow> ('o pyval, 'w) py"
  builtin :: "string \<Rightarrow> 'o arg list \<Rightarrow> ('o pyval, 'w) py"
  print :: "'o pyval \<Rightarrow> ('o pyval, 'w) py"
  unpack2 :: "'o pyval \<Rightarrow> ('o pyval \<times> 'o pyval, 'w) py"
  format_value :: "'o pyval \<Rightarrow> (string, 'w) py"
  run_line_magic :: "string \<Rightarrow> string \<Rightarrow> ('o pyval, 'w) py"
  system :: "string \<Rightarrow> 'w \<Rightarrow> 'w"
  tape_enter :: "'o pyval \<Rightarrow> ('o pyval, 'w) py"
  tape_exit :: "'o pyval \<Rightarrow> 'w \<Rightarrow> 'w"

text \<open>
  \<open>obj.name(args)\<close> reads the attribute, then calls it. \<open>from module import name\<close> imports
  the module, then reads the name. A \<open>with\<close> block enters the tape, runs its body, and
  leaves the tape whether the body returned or raised; the body's outcome is the block's.
\<close>

definition call_method :: "('o, 'w) library \<Rightarrow> 'o pyval \<Rightarrow> string \<Rightarrow> 'o arg list \<Rightarrow> ('o pyval, 'w) py" where
  "call_method lib obj name args = bind_py (getattr lib obj name) (\<lambda>m. call lib m args)"

definition import_from :: "('o, 'w) library \<Rightarrow> string \<Rightarrow> string \<Rightarrow> ('o pyval, 'w) py" where
  "import_from lib modname name = bind_py (import_module lib modname) (\<lambda>m. getattr lib m name)"

definition shell :: "('o, 'w) library \<Rightarrow> string \<Rightarrow> (unit, 'w) py" where
  "shell lib cmd = (\<lambda>w. (Inr (), system lib cmd w))"

definition with_tape :: "('o, 'w) library \<Rightarrow> 'o pyval \<Rightarrow> ('o pyval \<Rightarrow> ('a, 'w) py) \<Rightarrow> ('a, 'w) py" where
  "with_tape lib cm body =
     bind_py (tape_enter lib cm) (\<lambda>tape w. case body tape w of (r, w') \<Rightarrow> (r, tape_exit lib cm w'))"

text \<open>\<open>range(start, stop)\<close>, as the list of its values.\<close>

definition py_range :: "int \<Rightarrow> int \<Rightarrow> int list" where
  "py_range start stop = [start..stop - 1]"

subsection \<open>The clustering notebook\<close>

text \<open>
  \<^verbatim>\<open>
  import pandas as pd

  # load the training dataset
  !wget https://raw.githubusercontent.com/MicrosoftDocs/mslearn-introduction-to-machine-learning/main/Data/ml-basics/seeds.csv
  data = pd.read_csv('seeds.csv')

  # Display a random sample of 10 observations (just the features)
  features = data[data.columns[0:6]]
  features.sample(10)
  \<close>
\<close>

definition seeds_load_cell :: "('o, 'w) library \<Rightarrow> ('o pyval \<times> 'o pyval \<times> 'o pyval \<times> 'o pyval, 'w) py" where
  "seeds_load_cell lib =
     bind_py (import_module lib ''pandas'') (\<lambda>pd.
     bind_py (shell lib ''wget https://raw.githubusercontent.com/MicrosoftDocs/mslearn-introduction-to-machine-learning/main/Data/ml-basics/seeds.csv'') (\<lambda>u.
     bind_py (call_method lib pd ''read_csv'' [Pos (PStr ''seeds.csv'')]) (\<lambda>data.
     bind_py (getattr lib data ''columns'') (\<lambda>cols.
     bind_py (getitem lib cols (PSlice 0 6)) (\<lambda>first6.
     bind_py (getitem lib data first6) (\<lambda>features.
     bind_py (call_method lib features ''sample'' [Pos (PInt 10)]) (\<lambda>shown.
     return_py (pd, data, features, shown))))))))"

text \<open>
  \<^verbatim>\<open>
  from sklearn.preprocessing import MinMaxScaler
  from sklearn.decomposition import PCA

  # Normalize the numeric features so they're on the same scale
  scaled_features = MinMaxScaler().fit_transform(features[data.columns[0:6]])

  # Get two principal components
  pca = PCA(n_components=2).fit(scaled_features)
  features_2d = pca.transform(scaled_features)
  features_2d[0:10]
  \<close>
  \<open>data\<close> and \<open>features\<close> come from the cell before.
\<close>

definition preprocess_cell :: "('o, 'w) library \<Rightarrow> 'o pyval \<Rightarrow> 'o pyval \<Rightarrow> ('o pyval \<times> 'o pyval \<times> 'o pyval \<times> 'o pyval, 'w) py" where
  "preprocess_cell lib data features =
     bind_py (import_from lib ''sklearn.preprocessing'' ''MinMaxScaler'') (\<lambda>MinMaxScaler.
     bind_py (import_from lib ''sklearn.decomposition'' ''PCA'') (\<lambda>PCA.
     bind_py (call lib MinMaxScaler []) (\<lambda>scaler.
     bind_py (getattr lib scaler ''fit_transform'') (\<lambda>fit_transform.
     bind_py (getattr lib data ''columns'') (\<lambda>cols.
     bind_py (getitem lib cols (PSlice 0 6)) (\<lambda>first6.
     bind_py (getitem lib features first6) (\<lambda>selected.
     bind_py (call lib fit_transform [Pos selected]) (\<lambda>scaled_features.
     bind_py (call lib PCA [Kw ''n_components'' (PInt 2)]) (\<lambda>unfitted.
     bind_py (call_method lib unfitted ''fit'' [Pos scaled_features]) (\<lambda>pca.
     bind_py (call_method lib pca ''transform'' [Pos scaled_features]) (\<lambda>features_2d.
     bind_py (getitem lib features_2d (PSlice 0 10)) (\<lambda>shown.
     return_py (scaled_features, pca, features_2d, shown)))))))))))))"

text \<open>
  \<^verbatim>\<open>
  import matplotlib.pyplot as plt

  %matplotlib inline

  plt.scatter(features_2d[:,0],features_2d[:,1])
  plt.xlabel('Dimension 1')
  plt.ylabel('Dimension 2')
  plt.title('Data')
  plt.show()
  \<close>
\<close>

definition scatter_cell :: "('o, 'w) library \<Rightarrow> 'o pyval \<Rightarrow> ('o pyval, 'w) py" where
  "scatter_cell lib features_2d =
     bind_py (import_module lib ''matplotlib.pyplot'') (\<lambda>plt.
     bind_py (run_line_magic lib ''matplotlib'' ''inline'') (\<lambda>u.
     bind_py (getattr lib plt ''scatter'') (\<lambda>scatter.
     bind_py (getitem lib features_2d (PTuple [PSliceAll, PInt 0])) (\<lambda>xs.
     bind_py (getitem lib features_2d (PTuple [PSliceAll, PInt 1])) (\<lambda>ys.
     bind_py (call lib scatter [Pos xs, Pos ys]) (\<lambda>u.
     bind_py (call_method lib plt ''xlabel'' [Pos (PStr ''Dimension 1'')]) (\<lambda>u.
     bind_py (call_method lib plt ''ylabel'' [Pos (PStr ''Dimension 2'')]) (\<lambda>u.
     bind_py (call_method lib plt ''title'' [Pos (PStr ''Data'')]) (\<lambda>u.
     call_method lib plt ''show'' [])))))))))"

text \<open>
  \<^verbatim>\<open>
  # Create 10 models with 1 to 10 clusters
  wcss = []
  for i in range(1, 11):
      kmeans = KMeans(n_clusters = i)
      # Fit the data points
      kmeans.fit(features.values)
      # Get the WCSS (inertia) value
      wcss.append(kmeans.inertia_)
  \<close>
  One pass of the loop body, up to the value that is appended; the loop, with the list
  \<open>wcss\<close> as its accumulator; and the search as the cell runs it.
\<close>

definition wcss_iteration :: "('o, 'w) library \<Rightarrow> 'o pyval \<Rightarrow> 'o pyval \<Rightarrow> int \<Rightarrow> ('o pyval, 'w) py" where
  "wcss_iteration lib KMeans features i =
     bind_py (call lib KMeans [Kw ''n_clusters'' (PInt i)]) (\<lambda>kmeans.
     bind_py (getattr lib kmeans ''fit'') (\<lambda>fit.
     bind_py (getattr lib features ''values'') (\<lambda>X.
     bind_py (call lib fit [Pos X]) (\<lambda>fitted.
     getattr lib kmeans ''inertia_''))))"

fun wcss_loop :: "('o, 'w) library \<Rightarrow> 'o pyval \<Rightarrow> 'o pyval \<Rightarrow> int list \<Rightarrow> 'o pyval list \<Rightarrow> ('o pyval list, 'w) py" where
  "wcss_loop lib KMeans features [] wcss = return_py wcss"
| "wcss_loop lib KMeans features (i # rest) wcss =
     bind_py (wcss_iteration lib KMeans features i) (\<lambda>inertia.
     wcss_loop lib KMeans features rest (wcss @ [inertia]))"

definition cluster_count_search :: "('o, 'w) library \<Rightarrow> 'o pyval \<Rightarrow> 'o pyval \<Rightarrow> ('o pyval list, 'w) py" where
  "cluster_count_search lib KMeans features = wcss_loop lib KMeans features (py_range 1 11) []"

text \<open>
  The cell around the loop:
  \<^verbatim>\<open>
  import numpy as np
  import matplotlib.pyplot as plt
  from sklearn.cluster import KMeans
  %matplotlib inline
  ... the loop ...
  plt.plot(range(1, 11), wcss)
  plt.title('WCSS by Clusters')
  plt.xlabel('Number of clusters')
  plt.ylabel('WCSS')
  plt.show()
  \<close>
\<close>

definition wcss_cell :: "('o, 'w) library \<Rightarrow> 'o pyval \<Rightarrow> ('o pyval list, 'w) py" where
  "wcss_cell lib features =
     bind_py (import_module lib ''numpy'') (\<lambda>np.
     bind_py (import_module lib ''matplotlib.pyplot'') (\<lambda>plt.
     bind_py (import_from lib ''sklearn.cluster'' ''KMeans'') (\<lambda>KMeans.
     bind_py (run_line_magic lib ''matplotlib'' ''inline'') (\<lambda>u.
     bind_py (cluster_count_search lib KMeans features) (\<lambda>wcss.
     bind_py (call_method lib plt ''plot'' [Pos (PRange 1 11), Pos (PList wcss)]) (\<lambda>u.
     bind_py (call_method lib plt ''title'' [Pos (PStr ''WCSS by Clusters'')]) (\<lambda>u.
     bind_py (call_method lib plt ''xlabel'' [Pos (PStr ''Number of clusters'')]) (\<lambda>u.
     bind_py (call_method lib plt ''ylabel'' [Pos (PStr ''WCSS'')]) (\<lambda>u.
     bind_py (call_method lib plt ''show'' []) (\<lambda>u.
     return_py wcss))))))))))"

subsection \<open>The data notebook\<close>

text \<open>
  \<^verbatim>\<open>
  %matplotlib inline
  import torch
  from torch.utils.data import Dataset
  from torchvision import datasets
  from torchvision.transforms import ToTensor, Lambda
  import matplotlib.pyplot as plt

  training_data = datasets.FashionMNIST(
      root="data", train=True, download=True, transform=ToTensor())

  test_data = datasets.FashionMNIST(
      root="data", train=False, download=True, transform=ToTensor())
  \<close>
\<close>

definition fashion_mnist :: "('o, 'w) library \<Rightarrow> 'o pyval \<Rightarrow> 'o pyval \<Rightarrow> bool \<Rightarrow> ('o pyval, 'w) py" where
  "fashion_mnist lib datasets ToTensor train =
     bind_py (getattr lib datasets ''FashionMNIST'') (\<lambda>FashionMNIST.
     bind_py (call lib ToTensor []) (\<lambda>to_tensor.
     call lib FashionMNIST [Kw ''root'' (PStr ''data''), Kw ''train'' (PBool train),
       Kw ''download'' (PBool True), Kw ''transform'' to_tensor]))"

definition fashion_load_cell :: "('o, 'w) library \<Rightarrow> ('o pyval \<times> 'o pyval, 'w) py" where
  "fashion_load_cell lib =
     bind_py (run_line_magic lib ''matplotlib'' ''inline'') (\<lambda>u.
     bind_py (import_module lib ''torch'') (\<lambda>torch.
     bind_py (import_from lib ''torch.utils.data'' ''Dataset'') (\<lambda>Dataset.
     bind_py (import_from lib ''torchvision'' ''datasets'') (\<lambda>datasets.
     bind_py (import_module lib ''torchvision.transforms'') (\<lambda>transforms.
     bind_py (getattr lib transforms ''ToTensor'') (\<lambda>ToTensor.
     bind_py (getattr lib transforms ''Lambda'') (\<lambda>Lambda.
     bind_py (import_module lib ''matplotlib.pyplot'') (\<lambda>plt.
     bind_py (fashion_mnist lib datasets ToTensor True) (\<lambda>training_data.
     bind_py (fashion_mnist lib datasets ToTensor False) (\<lambda>test_data.
     return_py (training_data, test_data)))))))))))"

text \<open>
  \<^verbatim>\<open>
  labels_map = { 0: "T-Shirt", ..., 9: "Ankle Boot" }
  figure = plt.figure(figsize=(8, 8))
  cols, rows = 3, 3
  for i in range(1, cols * rows + 1):
      sample_idx = torch.randint(len(training_data), size=(1,)).item()
      img, label = training_data[sample_idx]
      figure.add_subplot(rows, cols, i)
      plt.title(labels_map[label])
      plt.axis("off")
      plt.imshow(img.squeeze(), cmap="gray")
  plt.show()
  \<close>
  \<open>torch\<close>, \<open>plt\<close> and \<open>training_data\<close> come from the cell before. The dictionary is
  the one transcribed above, as a Python value. Unpacking the pair of literals
  \<open>3, 3\<close> cannot fail and \<open>cols * rows + 1\<close> is 10.
\<close>

definition show_sample :: "('o, 'w) library \<Rightarrow> 'o pyval \<Rightarrow> 'o pyval \<Rightarrow> 'o pyval \<Rightarrow> 'o pyval \<Rightarrow> 'o pyval \<Rightarrow> int \<Rightarrow> int \<Rightarrow> int \<Rightarrow> ('o pyval, 'w) py" where
  "show_sample lib torch plt training_data labels figure cols rows i =
     bind_py (getattr lib torch ''randint'') (\<lambda>randint.
     bind_py (builtin lib ''len'' [Pos training_data]) (\<lambda>n.
     bind_py (call lib randint [Pos n, Kw ''size'' (PTuple [PInt 1])]) (\<lambda>drawn.
     bind_py (call_method lib drawn ''item'' []) (\<lambda>sample_idx.
     bind_py (getitem lib training_data sample_idx) (\<lambda>sample.
     bind_py (unpack2 lib sample) (\<lambda>(img, label).
     bind_py (call_method lib figure ''add_subplot'' [Pos (PInt rows), Pos (PInt cols), Pos (PInt i)]) (\<lambda>u.
     bind_py (getattr lib plt ''title'') (\<lambda>title.
     bind_py (getitem lib labels label) (\<lambda>name.
     bind_py (call lib title [Pos name]) (\<lambda>u.
     bind_py (call_method lib plt ''axis'' [Pos (PStr ''off'')]) (\<lambda>u.
     bind_py (getattr lib plt ''imshow'') (\<lambda>imshow.
     bind_py (call_method lib img ''squeeze'' []) (\<lambda>squeezed.
     call lib imshow [Pos squeezed, Kw ''cmap'' (PStr ''gray'')])))))))))))))"

fun show_samples_loop :: "('o, 'w) library \<Rightarrow> 'o pyval \<Rightarrow> 'o pyval \<Rightarrow> 'o pyval \<Rightarrow> 'o pyval \<Rightarrow> 'o pyval \<Rightarrow> int \<Rightarrow> int \<Rightarrow> int list \<Rightarrow> (unit, 'w) py" where
  "show_samples_loop lib torch plt training_data labels figure cols rows [] = return_py ()"
| "show_samples_loop lib torch plt training_data labels figure cols rows (i # rest) =
     bind_py (show_sample lib torch plt training_data labels figure cols rows i) (\<lambda>u.
     show_samples_loop lib torch plt training_data labels figure cols rows rest)"

definition show_samples_cell :: "('o, 'w) library \<Rightarrow> 'o pyval \<Rightarrow> 'o pyval \<Rightarrow> 'o pyval \<Rightarrow> ('o pyval, 'w) py" where
  "show_samples_cell lib torch plt training_data =
     (let labels = PDict (map (\<lambda>(k, name). (PInt k, PStr name)) labels_map) in
      bind_py (call_method lib plt ''figure'' [Kw ''figsize'' (PTuple [PInt 8, PInt 8])]) (\<lambda>figure.
      let cols = 3; rows = 3 in
      bind_py (show_samples_loop lib torch plt training_data labels figure cols rows
                 (py_range 1 (cols * rows + 1))) (\<lambda>u.
      call_method lib plt ''show'' [])))"

text \<open>
  \<^verbatim>\<open>
  from torch.utils.data import DataLoader

  train_dataloader = DataLoader(training_data, batch_size=64, shuffle=True)
  test_dataloader = DataLoader(test_data, batch_size=64, shuffle=True)
  \<close>
\<close>

definition dataloader_cell :: "('o, 'w) library \<Rightarrow> 'o pyval \<Rightarrow> 'o pyval \<Rightarrow> ('o pyval \<times> 'o pyval, 'w) py" where
  "dataloader_cell lib training_data test_data =
     bind_py (import_from lib ''torch.utils.data'' ''DataLoader'') (\<lambda>DataLoader.
     bind_py (call lib DataLoader [Pos training_data, Kw ''batch_size'' (PInt 64),
                Kw ''shuffle'' (PBool True)]) (\<lambda>train_dataloader.
     bind_py (call lib DataLoader [Pos test_data, Kw ''batch_size'' (PInt 64),
                Kw ''shuffle'' (PBool True)]) (\<lambda>test_dataloader.
     return_py (train_dataloader, test_dataloader))))"

text \<open>
  \<^verbatim>\<open>
  # Display image and label.
  train_features, train_labels = next(iter(train_dataloader))
  print(f"Feature batch shape: {train_features.size()}")
  print(f"Labels batch shape: {train_labels.size()}")
  img = train_features[0].squeeze()
  label = train_labels[0]
  plt.imshow(img, cmap="gray")
  plt.show()
  print(f"Label: {label}")
  \<close>
\<close>

definition print_size :: "('o, 'w) library \<Rightarrow> string \<Rightarrow> 'o pyval \<Rightarrow> ('o pyval, 'w) py" where
  "print_size lib heading batch =
     bind_py (call_method lib batch ''size'' []) (\<lambda>size.
     bind_py (format_value lib size) (\<lambda>text.
     print lib (PStr (heading @ text))))"

definition first_batch_cell :: "('o, 'w) library \<Rightarrow> 'o pyval \<Rightarrow> 'o pyval \<Rightarrow> ('o pyval, 'w) py" where
  "first_batch_cell lib plt train_dataloader =
     bind_py (builtin lib ''iter'' [Pos train_dataloader]) (\<lambda>iterator.
     bind_py (builtin lib ''next'' [Pos iterator]) (\<lambda>batch.
     bind_py (unpack2 lib batch) (\<lambda>(train_features, train_labels).
     bind_py (print_size lib ''Feature batch shape: '' train_features) (\<lambda>u.
     bind_py (print_size lib ''Labels batch shape: '' train_labels) (\<lambda>u.
     bind_py (getitem lib train_features (PInt 0)) (\<lambda>first.
     bind_py (call_method lib first ''squeeze'' []) (\<lambda>img.
     bind_py (getitem lib train_labels (PInt 0)) (\<lambda>label.
     bind_py (call_method lib plt ''imshow'' [Pos img, Kw ''cmap'' (PStr ''gray'')]) (\<lambda>u.
     bind_py (call_method lib plt ''show'' []) (\<lambda>u.
     bind_py (format_value lib label) (\<lambda>text.
     print lib (PStr (''Label: '' @ text)))))))))))))"

text \<open>
  \<^verbatim>\<open>
  from torchvision import datasets
  from torchvision.transforms import ToTensor, Lambda

  ds = datasets.FashionMNIST(
      root="data",
      train=True,
      download=True,
      transform=ToTensor(),
      target_transform=Lambda(lambda y: torch.zeros(10, dtype=torch.float).scatter_(0, torch.tensor(y), value=1))
  )
  \<close>
  The lambda is handed to the library as a value; its body runs when the library calls
  it, and is given here as a computation of its own. No cell of the notebook reads a
  sample of \<open>ds\<close>.
\<close>

definition ds_lambda :: "('o, 'w) library \<Rightarrow> 'o pyval \<Rightarrow> 'o pyval \<Rightarrow> ('o pyval, 'w) py" where
  "ds_lambda lib torch y =
     bind_py (getattr lib torch ''zeros'') (\<lambda>zeros.
     bind_py (getattr lib torch ''float'') (\<lambda>float.
     bind_py (call lib zeros [Pos (PInt 10), Kw ''dtype'' float]) (\<lambda>z.
     bind_py (getattr lib z ''scatter_'') (\<lambda>scatter.
     bind_py (call_method lib torch ''tensor'' [Pos y]) (\<lambda>index.
     call lib scatter [Pos (PInt 0), Pos index, Kw ''value'' (PInt 1)])))))"

definition ds_cell :: "('o, 'w) library \<Rightarrow> ('o pyval, 'w) py" where
  "ds_cell lib =
     bind_py (import_from lib ''torchvision'' ''datasets'') (\<lambda>datasets.
     bind_py (import_module lib ''torchvision.transforms'') (\<lambda>transforms.
     bind_py (getattr lib transforms ''ToTensor'') (\<lambda>ToTensor.
     bind_py (getattr lib transforms ''Lambda'') (\<lambda>Lambda.
     bind_py (getattr lib datasets ''FashionMNIST'') (\<lambda>FashionMNIST.
     bind_py (call lib ToTensor []) (\<lambda>to_tensor.
     bind_py (call lib Lambda [Pos (PClosure
                ''lambda y: torch.zeros(10, dtype=torch.float).scatter_(0, torch.tensor(y), value=1)'')]) (\<lambda>one_hot.
     call lib FashionMNIST [Kw ''root'' (PStr ''data''), Kw ''train'' (PBool True),
       Kw ''download'' (PBool True), Kw ''transform'' to_tensor,
       Kw ''target_transform'' one_hot])))))))"

text \<open>
  \<^verbatim>\<open>
  target_transform = Lambda(lambda y: torch.zeros(
      10, dtype=torch.float).scatter_(dim=0, index=torch.tensor(y), value=1))
  \<close>
  \<open>Lambda\<close> comes from the cell before.
\<close>

definition target_transform_lambda :: "('o, 'w) library \<Rightarrow> 'o pyval \<Rightarrow> 'o pyval \<Rightarrow> ('o pyval, 'w) py" where
  "target_transform_lambda lib torch y =
     bind_py (getattr lib torch ''zeros'') (\<lambda>zeros.
     bind_py (getattr lib torch ''float'') (\<lambda>float.
     bind_py (call lib zeros [Pos (PInt 10), Kw ''dtype'' float]) (\<lambda>z.
     bind_py (getattr lib z ''scatter_'') (\<lambda>scatter.
     bind_py (call_method lib torch ''tensor'' [Pos y]) (\<lambda>index.
     call lib scatter [Kw ''dim'' (PInt 0), Kw ''index'' index, Kw ''value'' (PInt 1)])))))"

definition target_transform_cell :: "('o, 'w) library \<Rightarrow> 'o pyval \<Rightarrow> ('o pyval, 'w) py" where
  "target_transform_cell lib Lambda =
     call lib Lambda [Pos (PClosure
       ''lambda y: torch.zeros(10, dtype=torch.float).scatter_(dim=0, index=torch.tensor(y), value=1)'')]"

subsection \<open>The automatic-differentiation notebook\<close>

text \<open>
  The gradient cell and the cell after it, which wraps the constants in
  \<open>tf.Variable\<close> and drops the two \<open>watch\<close> calls; \<open>tf\<close> is the module that the first
  cell imports. Each is given for any two literals first, then with the notebook's.
  \<^verbatim>\<open>
  U = tf.constant([[1., 2.]])
  V = tf.constant([[3., 4.], [5., 6.]])

  with tf.GradientTape(persistent=True) as tape:
    tape.watch(U)
    tape.watch(V)
    W = tf.matmul(U, V)
    f = tf.math.reduce_sum(W)

  print(tape.gradient(f, U)) # df/dU
  print(tape.gradient(f, V)) # df/dV
  \<close>
  \<^verbatim>\<open>
  U = tf.Variable(tf.constant([[1., 2.]]))
  V = tf.Variable(tf.constant([[3., 4.], [5., 6.]]))

  with tf.GradientTape(persistent=True) as tape:
    W = tf.matmul(U, V)
    f = tf.math.reduce_sum(W)

  print(tape.gradient(f, U)) # df/dU
  print(tape.gradient(f, V)) # df/dV
  \<close>
\<close>

text \<open>
  The first cell:
  \<^verbatim>\<open>
  import os
  os.environ["CUDA_VISIBLE_DEVICES"] = "-1"

  import tensorflow as tf
  \<close>
\<close>

definition tf_import_cell :: "('o, 'w) library \<Rightarrow> ('o pyval, 'w) py" where
  "tf_import_cell lib =
     bind_py (import_module lib ''os'') (\<lambda>os.
     bind_py (getattr lib os ''environ'') (\<lambda>environ.
     bind_py (setitem lib environ (PStr ''CUDA_VISIBLE_DEVICES'') (PStr ''-1'')) (\<lambda>u.
     import_module lib ''tensorflow'')))"

definition print_gradients :: "('o, 'w) library \<Rightarrow> 'o pyval \<Rightarrow> 'o pyval \<Rightarrow> 'o pyval \<Rightarrow> 'o pyval \<Rightarrow> ('o pyval \<times> 'o pyval, 'w) py" where
  "print_gradients lib tape target U V =
     bind_py (call_method lib tape ''gradient'' [Pos target, Pos U]) (\<lambda>dU.
     bind_py (print lib dU) (\<lambda>u.
     bind_py (call_method lib tape ''gradient'' [Pos target, Pos V]) (\<lambda>dV.
     bind_py (print lib dV) (\<lambda>u.
     return_py (dU, dV)))))"

definition sum_of_product :: "('o, 'w) library \<Rightarrow> 'o pyval \<Rightarrow> 'o pyval \<Rightarrow> 'o pyval \<Rightarrow> ('o pyval, 'w) py" where
  "sum_of_product lib tf U V =
     bind_py (call_method lib tf ''matmul'' [Pos U, Pos V]) (\<lambda>W.
     bind_py (getattr lib tf ''math'') (\<lambda>tf_math.
     call_method lib tf_math ''reduce_sum'' [Pos W]))"

definition gradient_cell_on :: "('o, 'w) library \<Rightarrow> 'o pyval \<Rightarrow> 'o pyval \<Rightarrow> 'o pyval \<Rightarrow> ('o pyval \<times> 'o pyval, 'w) py" where
  "gradient_cell_on lib tf U_literal V_literal =
     bind_py (call_method lib tf ''constant'' [Pos U_literal]) (\<lambda>U.
     bind_py (call_method lib tf ''constant'' [Pos V_literal]) (\<lambda>V.
     bind_py (call_method lib tf ''GradientTape'' [Kw ''persistent'' (PBool True)]) (\<lambda>cm.
     bind_py (with_tape lib cm (\<lambda>tape.
        bind_py (call_method lib tape ''watch'' [Pos U]) (\<lambda>u.
        bind_py (call_method lib tape ''watch'' [Pos V]) (\<lambda>u.
        bind_py (sum_of_product lib tf U V) (\<lambda>f.
        return_py (tape, f)))))) (\<lambda>(tape, f).
     print_gradients lib tape f U V))))"

definition gradient_cell :: "('o, 'w) library \<Rightarrow> 'o pyval \<Rightarrow> ('o pyval \<times> 'o pyval, 'w) py" where
  "gradient_cell lib tf =
     gradient_cell_on lib tf
       (PList [PList [PFloat 1, PFloat 2]])
       (PList [PList [PFloat 3, PFloat 4], PList [PFloat 5, PFloat 6]])"

definition tf_variable :: "('o, 'w) library \<Rightarrow> 'o pyval \<Rightarrow> 'o pyval \<Rightarrow> ('o pyval, 'w) py" where
  "tf_variable lib tf literal =
     bind_py (getattr lib tf ''Variable'') (\<lambda>Variable.
     bind_py (call_method lib tf ''constant'' [Pos literal]) (\<lambda>c.
     call lib Variable [Pos c]))"

definition gradient_variables_cell_on :: "('o, 'w) library \<Rightarrow> 'o pyval \<Rightarrow> 'o pyval \<Rightarrow> 'o pyval \<Rightarrow> ('o pyval \<times> 'o pyval, 'w) py" where
  "gradient_variables_cell_on lib tf U_literal V_literal =
     bind_py (tf_variable lib tf U_literal) (\<lambda>U.
     bind_py (tf_variable lib tf V_literal) (\<lambda>V.
     bind_py (call_method lib tf ''GradientTape'' [Kw ''persistent'' (PBool True)]) (\<lambda>cm.
     bind_py (with_tape lib cm (\<lambda>tape.
        bind_py (sum_of_product lib tf U V) (\<lambda>f.
        return_py (tape, f)))) (\<lambda>(tape, f).
     print_gradients lib tape f U V))))"

definition gradient_variables_cell :: "('o, 'w) library \<Rightarrow> 'o pyval \<Rightarrow> ('o pyval \<times> 'o pyval, 'w) py" where
  "gradient_variables_cell lib tf =
     gradient_variables_cell_on lib tf
       (PList [PList [PFloat 1, PFloat 2]])
       (PList [PList [PFloat 3, PFloat 4], PList [PFloat 5, PFloat 6]])"

section \<open>Observing a cell\<close>

text \<open>
  To state which requests a cell makes, and in which order, the library is wrapped: the
  wrapped library passes each request on and appends it, with its outcome, to a trace
  kept beside the world.
\<close>

datatype 'o event =
    Import string
  | GetAttr "'o pyval" string
  | Call "'o pyval" "'o arg list"
  | GetItem "'o pyval" "'o pyval"
  | SetItem "'o pyval" "'o pyval" "'o pyval"
  | Builtin string "'o arg list"
  | Print "'o pyval"
  | Unpack "'o pyval"
  | Format "'o pyval"
  | Magic string string
  | System string
  | Enter "'o pyval"
  | Exit "'o pyval"

type_synonym 'o trace = "('o event \<times> (py_error + 'o pyval)) list"

definition log_call :: "'o event \<Rightarrow> ('o pyval, 'w) py \<Rightarrow> ('o pyval, 'w \<times> 'o trace) py" where
  "log_call ev m = (\<lambda>(w, tr). case m w of (r, w') \<Rightarrow> (r, (w', tr @ [(ev, r)])))"

text \<open>
  The same for a request whose result is not a single value: the trace shows it as one
  (the two items as a pair, the formatted text as a string).
\<close>

definition log_as :: "('a \<Rightarrow> 'o pyval) \<Rightarrow> 'o event \<Rightarrow> ('a, 'w) py \<Rightarrow> ('a, 'w \<times> 'o trace) py" where
  "log_as shown ev m =
     (\<lambda>(w, tr). case m w of
        (Inl e, w') \<Rightarrow> (Inl e, (w', tr @ [(ev, Inl e)]))
      | (Inr a, w') \<Rightarrow> (Inr a, (w', tr @ [(ev, Inr (shown a))])))"

definition logged :: "('o, 'w) library \<Rightarrow> ('o, 'w \<times> 'o trace) library" where
  "logged lib =
     \<lparr>import_module = (\<lambda>n. log_call (Import n) (import_module lib n)),
      getattr = (\<lambda>obj n. log_call (GetAttr obj n) (getattr lib obj n)),
      call = (\<lambda>fn args. log_call (Call fn args) (call lib fn args)),
      getitem = (\<lambda>obj key. log_call (GetItem obj key) (getitem lib obj key)),
      setitem = (\<lambda>obj key v. log_call (SetItem obj key v) (setitem lib obj key v)),
      builtin = (\<lambda>n args. log_call (Builtin n args) (builtin lib n args)),
      print = (\<lambda>v. log_call (Print v) (print lib v)),
      unpack2 = (\<lambda>v. log_as (\<lambda>(a, b). PTuple [a, b]) (Unpack v) (unpack2 lib v)),
      format_value = (\<lambda>v. log_as PStr (Format v) (format_value lib v)),
      run_line_magic = (\<lambda>n line. log_call (Magic n line) (run_line_magic lib n line)),
      system = (\<lambda>cmd (w, tr). (system lib cmd w, tr @ [(System cmd, Inr PNone)])),
      tape_enter = (\<lambda>cm. log_call (Enter cm) (tape_enter lib cm)),
      tape_exit = (\<lambda>cm (w, tr). (tape_exit lib cm w, tr @ [(Exit cm, Inr PNone)]))\<rparr>"

text \<open>
  \<open>raise_is_final r tr\<close>: in the trace \<open>tr\<close> of a run with result \<open>r\<close>, the first request
  that raised, if there is one, raised the very exception that is the result, and
  nothing follows it but the tape being left; if no request raised, the result is a value.
\<close>

fun is_unwinding :: "'o event \<times> (py_error + 'o pyval) \<Rightarrow> bool" where
  "is_unwinding (Exit cm, Inr v) = True"
| "is_unwinding (ev, r) = False"

fun raise_is_final :: "py_error + 'a \<Rightarrow> 'o trace \<Rightarrow> bool" where
  "raise_is_final r [] = (case r of Inl e \<Rightarrow> False | Inr a \<Rightarrow> True)"
| "raise_is_final r ((ev, Inr v) # tr) = raise_is_final r tr"
| "raise_is_final r ((ev, Inl e) # tr) =
     ((case r of Inl e' \<Rightarrow> e' = e | Inr a \<Rightarrow> False) \<and> list_all is_unwinding tr)"

text \<open>
  A computation propagates exceptions when this holds of the requests it adds to any
  trace, from any world.
\<close>

definition propagates :: "('a, 'w \<times> 'o trace) py \<Rightarrow> bool" where
  "propagates m = (\<forall>w tr. \<exists>new. snd (snd (m (w, tr))) = tr @ new \<and> raise_is_final (fst (m (w, tr))) new)"

text \<open>
  The requests of one pass of the cluster-count loop, all of them returning: the model
  built, its \<open>fit\<close> method, the matrix \<open>features.values\<close>, the result of fitting, and the
  model's \<open>inertia_\<close>.
\<close>

record 'o iteration =
  it_model :: "'o pyval"
  it_fit :: "'o pyval"
  it_X :: "'o pyval"
  it_fitted :: "'o pyval"
  it_inertia :: "'o pyval"

definition iteration_trace :: "'o pyval \<Rightarrow> 'o pyval \<Rightarrow> int \<Rightarrow> 'o iteration \<Rightarrow> 'o trace" where
  "iteration_trace KMeans features i it =
     [(Call KMeans [Kw ''n_clusters'' (PInt i)], Inr (it_model it)),
      (GetAttr (it_model it) ''fit'', Inr (it_fit it)),
      (GetAttr features ''values'', Inr (it_X it)),
      (Call (it_fit it) [Pos (it_X it)], Inr (it_fitted it)),
      (GetAttr (it_model it) ''inertia_'', Inr (it_inertia it))]"

text \<open>
  An example library: a kernel without network access and without \<open>seeds.csv\<close>. The
  world says whether the file exists; \<open>wget\<close> fails and leaves it as it is;
  \<open>read_csv\<close> raises when the file is missing; a model built with \<open>n_clusters = i\<close>
  reports the inertia \<open>11 - i\<close>.
\<close>

definition offline_lib :: "(string \<times> int, bool) library" where
  "offline_lib =
     \<lparr>import_module = (\<lambda>n. return_py (PObj (n, 0))),
      getattr = (\<lambda>obj n.
        case obj of
          PObj (c, i) \<Rightarrow>
            if n = ''inertia_'' then return_py (PFloat (of_int (11 - i)))
            else return_py (PObj (n, i))
        | _ \<Rightarrow> (\<lambda>w. (Inl (Raised ''AttributeError'' n), w))),
      call = (\<lambda>fn args.
        case fn of
          PObj (c, i) \<Rightarrow>
            if c = ''read_csv''
            then (\<lambda>w. if w then (Inr (PObj (''DataFrame'', 0)), w)
                       else (Inl (Raised ''FileNotFoundError'' ''seeds.csv''), w))
            else (case args of
                    [Kw k (PInt j)] \<Rightarrow> return_py (PObj (c, j))
                  | _ \<Rightarrow> return_py (PObj (c, i)))
        | _ \<Rightarrow> (\<lambda>w. (Inl (Raised ''TypeError'' ''object is not callable''), w))),
      getitem = (\<lambda>obj key. return_py obj),
      setitem = (\<lambda>obj key v. return_py PNone),
      builtin = (\<lambda>n args. return_py PNone),
      print = (\<lambda>v. return_py PNone),
      unpack2 = (\<lambda>v. return_py (v, v)),
      format_value = (\<lambda>v. return_py []),
      run_line_magic = (\<lambda>n line. return_py PNone),
      system = (\<lambda>cmd w. w),
      tape_enter = (\<lambda>cm. return_py cm),
      tape_exit = (\<lambda>cm w. w)\<rparr>"

section \<open>TensorFlow, as far as the gradient cells use it\<close>

text \<open>
  What the gradient cells compute depends on TensorFlow: on the conversion of the
  literals to tensors, on what the tape records, and on the gradient functions of the
  two operations. TensorFlow's code is not part of this repository; this section is an
  instance of the library of the cells, written from TensorFlow's documentation and the
  behaviour of its eager mode, for the requests of the two gradient cells and no more:
  \<^item> \<open>tf.constant\<close> on a non-empty list of non-empty rows of Python floats of one length:
    a \<open>float32\<close> tensor holding each float rounded to the nearest \<open>float32\<close>; a float
    that \<open>float32\<close> cannot hold (one that rounds to an infinity) is refused with
    \<open>ValueError\<close>;
  \<^item> \<open>tf.Variable\<close> on a tensor: a trainable variable with the tensor's value;
  \<^item> \<open>tf.matmul\<close> on two matrices: \<open>InvalidArgumentError\<close> unless the number of columns
    of the first is the number of rows of the second;
  \<^item> \<open>tf.math.reduce_sum\<close> without an axis: the sum of all entries, a scalar;
  \<^item> \<open>tf.GradientTape\<close>, \<open>__enter__\<close>, \<open>__exit__\<close>, \<open>watch\<close> and \<open>gradient\<close>, see below;
  \<^item> \<open>print\<close>: the value is appended to what the kernel has printed.

  Every other request is answered by \<open>Raised ''NotModelled''\<close>: the model does not say
  what TensorFlow does there.

  A tensor is a scalar or a matrix of \<open>float32\<close> values; every tensor and variable has
  an identifier, by which a tape refers to it.
\<close>

datatype tf_value = Scalar fp | Matrix "fp list list"

datatype tf_fn = Constant | VariableCtor | GradientTapeCtor | MatMul | ReduceSum

datatype tf_obj =
    TfModule
  | TfMath
  | TfFn tf_fn
  | Tensor nat tf_value
  | Variable nat tf_value
  | Tape nat
  | TapeWatch nat
  | TapeGradient nat

text \<open>
  A recorded operation holds the identifiers and the values of its inputs and the
  identifier of its output. A tape holds whether it is persistent, whether it still has its recording (it has none
  before it is entered for the first time, and a tape that is not persistent drops it
  when \<open>gradient\<close> returns), the identifiers it tracks and the operations it has
  recorded, oldest first. The world of the kernel is the next free identifier, the tapes
  made so far, the tapes that are recording at the moment, and what has been printed.
\<close>

datatype tf_op =
    MatMulOp nat "fp list list" nat "fp list list" nat
  | SumOp nat tf_value nat

record tape_state =
  persistent :: bool
  live :: bool
  watched :: "nat list"
  recorded :: "tf_op list"

record tf_world =
  next_id :: nat
  tapes :: "tape_state list"
  active :: "nat list"
  stdout :: "tf_obj pyval list"

definition not_modelled :: "string \<Rightarrow> ('a, 'w) py" where
  "not_modelled what = (\<lambda>w. (Inl (Raised ''NotModelled'' what), w))"

definition raise_py :: "py_error \<Rightarrow> ('a, 'w) py" where
  "raise_py e = (\<lambda>w. (Inl e, w))"

definition fresh :: "(nat, tf_world) py" where
  "fresh = (\<lambda>w. (Inr (next_id w), w\<lparr>next_id := Suc (next_id w)\<rparr>))"

definition new_tensor :: "tf_value \<Rightarrow> (tf_obj pyval, tf_world) py" where
  "new_tensor v = bind_py fresh (\<lambda>i. return_py (PObj (Tensor i v)))"

text \<open>
  The literal of a matrix, \<open>[[x, ...], ...]\<close>, and its conversion by \<open>tf.constant\<close>. A
  \<open>PFloat\<close> is the value of a Python float.
\<close>

definition float_matrix :: "real list list \<Rightarrow> 'o pyval" where
  "float_matrix M = PList (map (\<lambda>row. PList (map PFloat row)) M)"

fun float_literal :: "'o pyval \<Rightarrow> real option" where
  "float_literal (PFloat x) = Some x"
| "float_literal v = None"

fun row_literal :: "'o pyval \<Rightarrow> real list option" where
  "row_literal (PList xs) = those (map float_literal xs)"
| "row_literal v = None"

fun matrix_literal :: "'o pyval \<Rightarrow> real list list option" where
  "matrix_literal (PList rows) = those (map row_literal rows)"
| "matrix_literal v = None"

definition tf_constant :: "tf_obj pyval \<Rightarrow> (tf_obj pyval, tf_world) py" where
  "tf_constant literal =
     (case matrix_literal literal of
        None \<Rightarrow> not_modelled ''constant''
      | Some M \<Rightarrow>
          if M = [] \<or> ncols M = 0 \<or> \<not> rectangular M then not_modelled ''constant''
          else if \<not> all_finite (map (map round32) M)
            then raise_py (ValueError ''Can't convert Python sequence with out-of-range double to Tensor.'')
          else new_tensor (Matrix (map (map round32) M)))"

text \<open>
  The product of two matrices and the sum of a tensor, in \<open>float32\<close>. The entry of a
  product is the sum of the products of a row and a column; here it is accumulated from
  zero, left to right, every product and every sum rounded, and so is the sum of a
  matrix, row after row. (The order of the accumulation and whether a product is
  rounded before it is added are the choice of the kernel that TensorFlow runs; they
  decide the values of \<open>W\<close> and \<open>f\<close>, but not the gradients of the cells, where every
  product of the backward pass has the factor \<open>1\<close>.)
\<close>

definition dot32 :: "fp list \<Rightarrow> fp list \<Rightarrow> fp" where
  "dot32 a b = foldl (fp_add round32) (Val 0) (map2 (fp_mul round32) a b)"

definition transpose_m :: "'a list list \<Rightarrow> 'a list list" where
  "transpose_m M = map (column M) [0..<ncols M]"

definition matmul32 :: "fp list list \<Rightarrow> fp list list \<Rightarrow> fp list list" where
  "matmul32 A B = map (\<lambda>row. map (dot32 row) (transpose_m B)) A"

fun sum32 :: "tf_value \<Rightarrow> fp" where
  "sum32 (Scalar s) = s"
| "sum32 (Matrix M) = foldl (fp_add round32) (Val 0) (concat M)"

text \<open>
  An operation is run eagerly. Every recording tape records it when it tracks one of the
  inputs, and then tracks the output; a variable that is read is tracked by every
  recording tape from then on (\<open>watch_accessed_variables\<close> is \<open>True\<close> by default).
\<close>

definition on_active :: "(tape_state \<Rightarrow> tape_state) \<Rightarrow> tf_world \<Rightarrow> tf_world" where
  "on_active g w = w\<lparr>tapes := foldl (\<lambda>ts t. ts[t := g (ts ! t)]) (tapes w) (active w)\<rparr>"

definition watch_on :: "nat \<Rightarrow> tape_state \<Rightarrow> tape_state" where
  "watch_on i t = (if i \<in> set (watched t) then t else t\<lparr>watched := watched t @ [i]\<rparr>)"

definition record_on :: "nat list \<Rightarrow> nat \<Rightarrow> tf_op \<Rightarrow> tape_state \<Rightarrow> tape_state" where
  "record_on inputs out op t =
     (if list_ex (\<lambda>i. i \<in> set (watched t)) inputs
      then t\<lparr>watched := watched t @ [out], recorded := recorded t @ [op]\<rparr>
      else t)"

fun operand :: "tf_obj pyval \<Rightarrow> (nat \<times> tf_value \<times> bool) option" where
  "operand (PObj (Tensor i v)) = Some (i, v, False)"
| "operand (PObj (Variable i v)) = Some (i, v, True)"
| "operand x = None"

definition read_operand :: "tf_obj pyval \<Rightarrow> (nat \<times> tf_value, tf_world) py" where
  "read_operand x =
     (case operand x of
        None \<Rightarrow> not_modelled ''operand''
      | Some (i, v, is_variable) \<Rightarrow>
          (\<lambda>w. (Inr (i, v), if is_variable then on_active (watch_on i) w else w)))"

definition run_op :: "nat list \<Rightarrow> tf_value \<Rightarrow> (nat \<Rightarrow> tf_op) \<Rightarrow> (tf_obj pyval, tf_world) py" where
  "run_op inputs v op =
     bind_py fresh (\<lambda>out w. (Inr (PObj (Tensor out v)), on_active (record_on inputs out (op out)) w))"

definition tf_matmul :: "tf_obj pyval \<Rightarrow> tf_obj pyval \<Rightarrow> (tf_obj pyval, tf_world) py" where
  "tf_matmul a b =
     bind_py (read_operand a) (\<lambda>(i, x).
     bind_py (read_operand b) (\<lambda>(j, y).
       case x of
         Scalar s \<Rightarrow> raise_py (InvalidArgumentError ''In[0] ndims must be >= 2'')
       | Matrix A \<Rightarrow>
       (case y of
         Scalar s \<Rightarrow> raise_py (InvalidArgumentError ''In[1] ndims must be >= 2'')
       | Matrix B \<Rightarrow>
           if ncols A \<noteq> length B
           then raise_py (InvalidArgumentError ''Matrix size-incompatible'')
           else run_op [i, j] (Matrix (matmul32 A B)) (MatMulOp i A j B))))"

definition tf_reduce_sum :: "tf_obj pyval \<Rightarrow> (tf_obj pyval, tf_world) py" where
  "tf_reduce_sum x =
     bind_py (read_operand x) (\<lambda>(i, v). run_op [i] (Scalar (sum32 v)) (SumOp i v))"

text \<open>
  The backward pass. \<open>tape.gradient(target, source)\<close> starts with the gradient \<open>1\<close> for
  every entry of the target, and goes through the recorded operations from the latest
  to the oldest; an operation whose output has a gradient \<open>G\<close> passes gradients to its
  inputs:
  \<^item> \<open>reduce_sum\<close> passes \<open>G\<close>, a scalar, to every entry of its input;
  \<^item> \<open>matmul(A, B)\<close> passes \<open>matmul(G, B\<^sup>T)\<close> to \<open>A\<close> and \<open>matmul(A\<^sup>T, G)\<close> to \<open>B\<close>.

  Gradients that reach the same tensor are added. The gradient of a source that the
  tape does not track, or that no gradient reaches, is \<open>None\<close>.
\<close>

fun ones_like :: "tf_value \<Rightarrow> tf_value" where
  "ones_like (Scalar s) = Scalar (Val 1)"
| "ones_like (Matrix M) = Matrix (map (map (\<lambda>x. Val 1)) M)"

fun fill_like :: "tf_value \<Rightarrow> tf_value \<Rightarrow> tf_value" where
  "fill_like (Matrix M) (Scalar g) = Matrix (map (map (\<lambda>x. g)) M)"
| "fill_like x g = g"

fun add_values :: "tf_value \<Rightarrow> tf_value \<Rightarrow> tf_value" where
  "add_values (Scalar a) (Scalar b) = Scalar (fp_add round32 a b)"
| "add_values (Matrix A) (Matrix B) = Matrix (map2 (map2 (fp_add round32)) A B)"
| "add_values a b = a"

fun add_grad :: "nat \<Rightarrow> tf_value \<Rightarrow> (nat \<times> tf_value) list \<Rightarrow> (nat \<times> tf_value) list" where
  "add_grad i g [] = [(i, g)]"
| "add_grad i g ((j, h) # rest) =
     (if i = j then (j, add_values h g) # rest else (j, h) # add_grad i g rest)"

fun backprop_op :: "tf_op \<Rightarrow> (nat \<times> tf_value) list \<Rightarrow> (nat \<times> tf_value) list" where
  "backprop_op (SumOp i x out) grads =
     (case map_of grads out of
        None \<Rightarrow> grads
      | Some g \<Rightarrow> add_grad i (fill_like x g) grads)"
| "backprop_op (MatMulOp i A j B out) grads =
     (case map_of grads out of
        None \<Rightarrow> grads
      | Some (Scalar g) \<Rightarrow> grads
      | Some (Matrix G) \<Rightarrow>
          add_grad j (Matrix (matmul32 (transpose_m A) G))
            (add_grad i (Matrix (matmul32 G (transpose_m B))) grads))"

definition backprop :: "tf_op list \<Rightarrow> nat \<Rightarrow> tf_value \<Rightarrow> (nat \<times> tf_value) list" where
  "backprop ops target v = foldr backprop_op ops [(target, ones_like v)]"

text \<open>
  The tape as an object. \<open>tf.GradientTape(persistent=...)\<close> makes a tape that is not
  recording. \<open>__enter__\<close> starts the recording, on a new recording when the tape has
  none, and raises \<open>ValueError\<close> when the tape is recording already; \<open>__exit__\<close> stops
  it. \<open>watch\<close> makes the tape track a tensor. \<open>gradient\<close> raises \<open>RuntimeError\<close> on a
  tape without a recording, which is the case of the second call on a tape that is not
  persistent; it is modelled when no tape is recording (a gradient taken inside a
  \<open>with\<close> block would itself be recorded).
\<close>

definition new_tape :: "bool \<Rightarrow> (tf_obj pyval, tf_world) py" where
  "new_tape p =
     (\<lambda>w. (Inr (PObj (Tape (length (tapes w)))),
            w\<lparr>tapes := tapes w @ [\<lparr>persistent = p, live = False, watched = [], recorded = []\<rparr>]\<rparr>))"

definition tf_tape_enter :: "tf_obj pyval \<Rightarrow> (tf_obj pyval, tf_world) py" where
  "tf_tape_enter cm =
     (case cm of
        PObj (Tape t) \<Rightarrow>
          (\<lambda>w. if length (tapes w) \<le> t then not_modelled ''enter'' w
                else if t \<in> set (active w)
                  then (Inl (ValueError ''Tape is still recording, This can happen if you try to re-enter an already-active tape.''), w)
                else (Inr (PObj (Tape t)),
                      w\<lparr>tapes := (tapes w)[t :=
                           (if live (tapes w ! t) then tapes w ! t
                            else (tapes w ! t)\<lparr>live := True, watched := [], recorded := []\<rparr>)],
                        active := t # active w\<rparr>))
      | _ \<Rightarrow> not_modelled ''enter'')"

definition tf_tape_exit :: "tf_obj pyval \<Rightarrow> tf_world \<Rightarrow> tf_world" where
  "tf_tape_exit cm w =
     (case cm of
        PObj (Tape t) \<Rightarrow> w\<lparr>active := removeAll t (active w)\<rparr>
      | _ \<Rightarrow> w)"

definition tape_watch :: "nat \<Rightarrow> tf_obj pyval \<Rightarrow> (tf_obj pyval, tf_world) py" where
  "tape_watch t x =
     (\<lambda>w. if length (tapes w) \<le> t \<or> \<not> live (tapes w ! t) then not_modelled ''watch'' w
           else (case operand x of
                   None \<Rightarrow> not_modelled ''watch'' w
                 | Some (i, v, is_variable) \<Rightarrow>
                     (Inr PNone, w\<lparr>tapes := (tapes w)[t := watch_on i (tapes w ! t)]\<rparr>)))"

definition tape_gradient :: "nat \<Rightarrow> tf_obj pyval \<Rightarrow> tf_obj pyval \<Rightarrow> (tf_obj pyval, tf_world) py" where
  "tape_gradient t target source =
     (\<lambda>w. if length (tapes w) \<le> t then not_modelled ''gradient'' w
           else if \<not> live (tapes w ! t)
             then (Inl (RuntimeError ''A non-persistent GradientTape can only be used to compute one set of gradients (or jacobians)''), w)
           else if active w \<noteq> [] then not_modelled ''gradient'' w
           else (case target of
                   PObj (Tensor y v) \<Rightarrow>
                     (case operand source of
                        None \<Rightarrow> not_modelled ''gradient'' w
                      | Some (x, sv, is_variable) \<Rightarrow>
                          let tp = tapes w ! t;
                              w' = (if persistent tp then w
                                    else w\<lparr>tapes := (tapes w)[t := tp\<lparr>live := False\<rparr>]\<rparr>)
                          in if x \<in> set (watched tp)
                             then (case map_of (backprop (recorded tp) y v) x of
                                     None \<Rightarrow> (Inr PNone, w')
                                   | Some g \<Rightarrow> new_tensor g w')
                             else (Inr PNone, w'))
                 | _ \<Rightarrow> not_modelled ''gradient'' w))"

text \<open>The attributes and the calls.\<close>

definition tf_getattr :: "tf_obj pyval \<Rightarrow> string \<Rightarrow> (tf_obj pyval, tf_world) py" where
  "tf_getattr obj name =
     (case obj of
        PObj TfModule \<Rightarrow>
          if name = ''constant'' then return_py (PObj (TfFn Constant))
          else if name = ''Variable'' then return_py (PObj (TfFn VariableCtor))
          else if name = ''GradientTape'' then return_py (PObj (TfFn GradientTapeCtor))
          else if name = ''matmul'' then return_py (PObj (TfFn MatMul))
          else if name = ''math'' then return_py (PObj TfMath)
          else not_modelled name
      | PObj TfMath \<Rightarrow>
          if name = ''reduce_sum'' then return_py (PObj (TfFn ReduceSum))
          else not_modelled name
      | PObj (Tape t) \<Rightarrow>
          if name = ''watch'' then return_py (PObj (TapeWatch t))
          else if name = ''gradient'' then return_py (PObj (TapeGradient t))
          else not_modelled name
      | _ \<Rightarrow> not_modelled name)"

fun constant_call :: "tf_obj arg list \<Rightarrow> (tf_obj pyval, tf_world) py" where
  "constant_call [Pos literal] = tf_constant literal"
| "constant_call args = not_modelled ''constant''"

fun variable_call :: "tf_obj arg list \<Rightarrow> (tf_obj pyval, tf_world) py" where
  "variable_call [Pos (PObj (Tensor i v))] =
     bind_py fresh (\<lambda>j. return_py (PObj (Variable j v)))"
| "variable_call args = not_modelled ''Variable''"

fun gradient_tape_call :: "tf_obj arg list \<Rightarrow> (tf_obj pyval, tf_world) py" where
  "gradient_tape_call [] = new_tape False"
| "gradient_tape_call [Pos (PBool b)] = new_tape b"
| "gradient_tape_call [Kw k (PBool b)] =
     (if k = ''persistent'' then new_tape b else not_modelled ''GradientTape'')"
| "gradient_tape_call args = not_modelled ''GradientTape''"

fun matmul_call :: "tf_obj arg list \<Rightarrow> (tf_obj pyval, tf_world) py" where
  "matmul_call [Pos a, Pos b] = tf_matmul a b"
| "matmul_call args = not_modelled ''matmul''"

fun reduce_sum_call :: "tf_obj arg list \<Rightarrow> (tf_obj pyval, tf_world) py" where
  "reduce_sum_call [Pos x] = tf_reduce_sum x"
| "reduce_sum_call args = not_modelled ''reduce_sum''"

fun watch_call :: "nat \<Rightarrow> tf_obj arg list \<Rightarrow> (tf_obj pyval, tf_world) py" where
  "watch_call t [Pos x] = tape_watch t x"
| "watch_call t args = not_modelled ''watch''"

fun gradient_call :: "nat \<Rightarrow> tf_obj arg list \<Rightarrow> (tf_obj pyval, tf_world) py" where
  "gradient_call t [Pos target, Pos source] = tape_gradient t target source"
| "gradient_call t args = not_modelled ''gradient''"

definition tf_call :: "tf_obj pyval \<Rightarrow> tf_obj arg list \<Rightarrow> (tf_obj pyval, tf_world) py" where
  "tf_call callee args =
     (case callee of
        PObj (TfFn fn) \<Rightarrow>
          (case fn of
             Constant \<Rightarrow> constant_call args
           | VariableCtor \<Rightarrow> variable_call args
           | GradientTapeCtor \<Rightarrow> gradient_tape_call args
           | MatMul \<Rightarrow> matmul_call args
           | ReduceSum \<Rightarrow> reduce_sum_call args)
      | PObj (TapeWatch t) \<Rightarrow> watch_call t args
      | PObj (TapeGradient t) \<Rightarrow> gradient_call t args
      | _ \<Rightarrow> not_modelled ''call'')"

definition tf_lib :: "(tf_obj, tf_world) library" where
  "tf_lib =
     \<lparr>import_module = (\<lambda>name. if name = ''tensorflow'' then return_py (PObj TfModule)
                               else not_modelled name),
      getattr = tf_getattr,
      call = tf_call,
      getitem = (\<lambda>obj key. not_modelled ''getitem''),
      setitem = (\<lambda>obj key v. not_modelled ''setitem''),
      builtin = (\<lambda>name args. not_modelled name),
      print = (\<lambda>v w. (Inr PNone, w\<lparr>stdout := stdout w @ [v]\<rparr>)),
      unpack2 = (\<lambda>v. not_modelled ''unpack''),
      format_value = (\<lambda>v. not_modelled ''format''),
      run_line_magic = (\<lambda>name line. not_modelled name),
      system = (\<lambda>cmd w. w),
      tape_enter = tf_tape_enter,
      tape_exit = tf_tape_exit\<rparr>"


definition outcome :: "('a, tf_world) py \<Rightarrow> tf_world \<Rightarrow> (py_error + 'a) \<times> tf_obj pyval list" where
  "outcome m w = (fst (m w), drop (length (stdout w)) (stdout (snd (m w))))"

section \<open>Theorems\<close>

subsection \<open>Rounding\<close>

text \<open>
  The exponent of a value, given two powers of two that enclose it, and with it the
  rounding of a given real; a value of the format rounds to itself.
\<close>

lemma floor_log2_eq:
  assumes "0 < x" "2 powr of_int e \<le> x" "x < 2 powr of_int (e + 1)"
  shows "\<lfloor>log 2 x\<rfloor> = e"
proof -
  have "of_int e \<le> log 2 x"
    using assms by (simp add: le_log_iff)
  moreover have "log 2 x < of_int (e + 1)"
    using assms by (simp add: log_less_iff)
  ultimately show ?thesis by (simp add: floor_unique)
qed

lemma round_half_even_int [simp]: "round_half_even (of_int n) = n"
  by (simp add: round_half_even_def)

lemma round_fp_eval:
  assumes "x \<noteq> 0" "2 powr of_int e \<le> \<bar>x\<bar>" "\<bar>x\<bar> < 2 powr of_int (e + 1)"
  shows "round_fp p qmin emax x =
     (let k = max (e - (int p - 1)) qmin;
          y = of_int (round_half_even (x / 2 powr of_int k)) * 2 powr of_int k
      in if 2 powr of_int emax \<le> \<bar>y\<bar> then (if 0 < x then PosInf else NegInf) else Val y)"
proof -
  have "\<lfloor>log 2 \<bar>x\<bar>\<rfloor> = e" using assms by (intro floor_log2_eq) simp_all
  then show ?thesis using assms(1) by (simp add: round_fp_def)
qed

lemma round_fp_exact:
  assumes "is_fp p qmin emax x" "0 < p"
  shows "round_fp p qmin emax x = Val x"
proof (cases "x = 0")
  case True
  then show ?thesis by (simp add: round_fp_def)
next
  case False
  from assms(1) obtain m e where x: "x = of_int m * 2 powr of_int e"
    and m: "\<bar>m\<bar> < 2 ^ p" and e: "qmin \<le> e" and b: "\<bar>x\<bar> < 2 powr of_int emax"
    unfolding is_fp_def by blast
  have m0: "m \<noteq> 0" using False x by auto
  define L where "L = \<lfloor>log 2 \<bar>x\<bar>\<rfloor>"
  define k where "k = max (L - (int p - 1)) qmin"
  have absx: "\<bar>x\<bar> = of_int \<bar>m\<bar> * 2 powr of_int e" by (simp add: x abs_mult)
  have "\<bar>x\<bar> < 2 ^ p * 2 powr of_int e"
  proof -
    have "(of_int \<bar>m\<bar> :: real) < 2 ^ p" using m by (metis of_int_less_numeral_power_cancel_iff)
    then show ?thesis unfolding absx by (simp add: mult_strict_right_mono)
  qed
  also have "\<dots> = 2 powr (of_int (int p + e))"
    by (simp add: powr_add powr_realpow)
  finally have "log 2 \<bar>x\<bar> < of_int (int p + e)"
    using False by (simp add: log_less_iff)
  then have "L < int p + e" unfolding L_def by (simp add: floor_less_iff)
  then have ke: "k \<le> e" unfolding k_def using e by simp
  define n where "n = m * 2 ^ nat (e - k)"
  have "x / 2 powr of_int k = of_int m * 2 powr (of_int e - of_int k)"
    by (simp add: x powr_diff)
  also have "2 powr (of_int e - of_int k) = (2::real) ^ nat (e - k)"
    using ke by (simp add: powr_realpow [symmetric])
  finally have q: "x / 2 powr of_int k = of_int n" by (simp add: n_def)
  have "of_int (round_half_even (x / 2 powr of_int k)) * 2 powr of_int k = x"
    unfolding q round_half_even_int using q by (simp add: field_simps)
  then show ?thesis
    using False b by (simp add: round_fp_def L_def [symmetric] k_def [symmetric] Let_def)
qed

lemmas powr_eval = powr_minus powr_numeral powr_zero_eq_one


lemma round64_exact: "is_float64 x \<Longrightarrow> round64 x = Val x"
  unfolding is_float64_def round64_def by (rule round_fp_exact) simp_all

lemma is_fp_of_int:
  assumes "\<bar>n\<bar> < 2 ^ p" "qmin \<le> 0" "int p \<le> emax"
  shows "is_fp p qmin emax (of_int n)"
proof -
  have "\<bar>of_int n :: real\<bar> < 2 ^ p"
    using assms(1) by (metis of_int_abs of_int_less_numeral_power_cancel_iff)
  also have "\<dots> = 2 powr of_int (int p)" by (simp add: powr_realpow)
  also have "\<dots> \<le> 2 powr of_int emax" using assms(3) by (simp add: powr_mono)
  finally have b: "\<bar>of_int n :: real\<bar> < 2 powr of_int emax" .
  show ?thesis
    unfolding is_fp_def using assms(1,2) b
    by (intro exI [of _ n] exI [of _ 0]) simp
qed






lemma round32_zero: "round32 0 = Val 0"
  by (simp add: round32_def round_fp_def)







subsection \<open>One-hot encoding\<close>

lemma scatter_zeros_onehot:
  assumes "0 \<le> y" "y < int n"
  shows "scatter_dim0 (torch_zeros n) y 1 = Inr ((replicate n 0)[nat y := 1])"
  using assms by (simp add: scatter_dim0_def torch_zeros_def)

lemma sum_list_onehot:
  "i < n \<Longrightarrow> sum_list ((replicate n (0::real))[i := 1]) = 1"
proof (induction n arbitrary: i)
  case 0
  then show ?case by simp
next
  case (Suc n)
  then show ?case by (cases i) (simp_all add: sum_list_replicate)
qed

text \<open>
  C8. For every integer label \<open>y\<close> with \<open>0 \<le> y \<le> 9\<close>, both occurrences of the
  target transform return, without raising, a vector of length 10 whose entry at index
  \<open>y\<close> is 1, whose entries at all other indices are 0, and whose entries sum to 1.
\<close>

theorem target_transform_one_hot:
  assumes "0 \<le> y" "y \<le> 9"
  shows "\<exists>v. target_transform y = Inr v \<and> ds_target_transform y = Inr v
             \<and> length v = 10 \<and> v ! nat y = 1
             \<and> (\<forall>j<10. j \<noteq> nat y \<longrightarrow> v ! j = 0)
             \<and> sum_list v = 1"
proof -
  let ?v = "(replicate 10 (0::real))[nat y := 1]"
  have lt: "nat y < 10" using assms by simp
  have r: "scatter_dim0 (torch_zeros 10) y 1 = Inr ?v"
    using assms scatter_zeros_onehot [of y 10] by simp
  have "target_transform y = Inr ?v" "ds_target_transform y = Inr ?v"
    using r by (simp_all add: target_transform_def ds_target_transform_def)
  moreover have "length ?v = 10" by simp
  moreover have "?v ! nat y = 1" using lt by simp
  moreover have "\<forall>j<10. j \<noteq> nat y \<longrightarrow> ?v ! j = 0" by simp
  moreover have "sum_list ?v = 1" using lt by (rule sum_list_onehot)
  ultimately show ?thesis by blast
qed

theorem target_transform_one_hot_witness:
  "target_transform 3 = Inr [0, 0, 0, 1, 0, 0, 0, 0, 0, 0]
   \<and> sum_list [0, 0, 0, 1, 0, 0, 0, 0, 0, (0::real)] = 1"
proof -
  have "(0::int) \<le> 3" "(3::int) \<le> 9" by simp_all
  from target_transform_one_hot [OF this]
  obtain v where v: "target_transform 3 = Inr v" "sum_list v = 1" by blast
  have "target_transform 3 = Inr [0, 0, 0, 1, 0, 0, 0, 0, 0, 0]"
    by (simp add: target_transform_def scatter_dim0_def torch_zeros_def eval_nat_numeral)
  with v show ?thesis by simp
qed

subsection \<open>Class names\<close>

text \<open>
  The dictionary has exactly the keys 0 to 9, each once, with ten different names, so
  the lookup succeeds exactly for the labels 0 to 9. (What the downloaded Fashion-MNIST
  files hold, images and labels, is data that no cell of the notebook defines or checks.)
\<close>

lemma labels_map_keys: "map fst labels_map = [0, 1, 2, 3, 4, 5, 6, 7, 8, 9]"
  by (simp add: labels_map_def)

lemma labels_map_names_distinct: "distinct (map snd labels_map)"
  by (simp add: labels_map_def)

lemma labels_map_dom: "dom (map_of labels_map) = {0..9}"
proof -
  have "dom (map_of labels_map) = set (map fst labels_map)"
    by (simp add: dom_map_of_conv_image_fst)
  also have "\<dots> = {0, 1, 2, 3, 4, 5, 6, 7, 8, 9}" by (simp add: labels_map_keys)
  also have "\<dots> = {0..9::int}"
  proof (intro set_eqI iffI)
    fix x :: int
    assume "x \<in> {0..9}"
    then have "x = 0 \<or> x = 1 \<or> x = 2 \<or> x = 3 \<or> x = 4 \<or> x = 5 \<or> x = 6 \<or> x = 7 \<or> x = 8 \<or> x = 9"
      by (simp only: atLeastAtMost_iff) arith
    then show "x \<in> {0, 1, 2, 3, 4, 5, 6, 7, 8, 9}" by blast
  qed auto
  finally show ?thesis .
qed

lemma labels_map_getitem_ok:
  "(\<exists>name. labels_map_getitem label = Inr name) \<longleftrightarrow> 0 \<le> label \<and> label \<le> 9"
proof -
  have "(\<exists>name. labels_map_getitem label = Inr name) \<longleftrightarrow> label \<in> dom (map_of labels_map)"
    by (auto simp: labels_map_getitem_def split: option.splits)
  then show ?thesis by (simp add: labels_map_dom)
qed

subsection \<open>Module metadata\<close>

lemma responsible_bots_conforms: "module_conforms responsible_bots_introduction_index"
  by (simp add: module_conforms_def get_string_def get_string_list_def
      responsible_bots_introduction_index_def)

lemma ai_fundamentals_conforms: "module_conforms ai_machine_learning_fundamentals_index"
  by (simp add: module_conforms_def get_string_def get_string_list_def
      ai_machine_learning_fundamentals_index_def)

text \<open>
  C6. Every module file is static data (a \<open>yaml\<close> tree of strings, sequences and
  mappings, with nothing to execute) that defines a top-level title string, a summary
  string, a non-empty list of units and a non-empty list of products.
\<close>

theorem module_files_conform: "\<forall>doc \<in> set module_files. module_conforms doc"
  using responsible_bots_conforms ai_fundamentals_conforms
  by (simp add: module_files_def)

theorem module_files_conform_witness:
  "responsible_bots_introduction_index \<in> set module_files
   \<and> get_string responsible_bots_introduction_index ''title'' = Some ''Introduction to responsible bots''
   \<and> module_conforms responsible_bots_introduction_index"
proof -
  have m: "responsible_bots_introduction_index \<in> set module_files"
    by (simp add: module_files_def)
  have t: "get_string responsible_bots_introduction_index ''title''
             = Some ''Introduction to responsible bots''"
    by (simp add: get_string_def responsible_bots_introduction_index_def)
  from module_files_conform m have "module_conforms responsible_bots_introduction_index"
    by blast
  with m t show ?thesis by simp
qed


subsection \<open>Unit identifiers\<close>

lemma responsible_bots_units_prefixed:
  "units_prefixed lstrip responsible_bots_introduction_index"
  by (simp add: units_prefixed_def get_string_def get_string_list_def unit_of_module_def
      lstrip_def is_space_def responsible_bots_introduction_index_def)

lemma ai_fundamentals_units_prefixed:
  "units_prefixed lstrip ai_machine_learning_fundamentals_index"
  by (simp add: units_prefixed_def get_string_def get_string_list_def unit_of_module_def
      lstrip_def is_space_def ai_machine_learning_fundamentals_index_def)

lemma ai_fundamentals_units_raw:
  "\<not> units_prefixed (\<lambda>u. u) ai_machine_learning_fundamentals_index"
  by (simp add: units_prefixed_def get_string_def get_string_list_def unit_of_module_def
      ai_machine_learning_fundamentals_index_def)

lemma ai_fundamentals_leading_space:
  "\<exists>us. get_string_list ai_machine_learning_fundamentals_index ''units'' = Some us
     \<and> '' learn.azure.ai-machine-learning-fundamentals.use-cognitive-services'' \<in> set us"
  by (simp add: get_string_list_def ai_machine_learning_fundamentals_index_def)

text \<open>
  C9. In every module file, every entry of the units list, once its leading whitespace
  is stripped, is the module's own uid, a dot and a non-empty unit name. On the raw
  strings the property fails: in the module \<open>learn.azure.ai-machine-learning-fundamentals\<close>
  the entry for \<open>use-cognitive-services\<close> starts with a space.
\<close>

theorem unit_uids_prefixed_after_lstrip:
  "(\<forall>doc \<in> set module_files. units_prefixed lstrip doc)
   \<and> (\<exists>doc \<in> set module_files. \<not> units_prefixed (\<lambda>u. u) doc
        \<and> (\<exists>us u. get_string_list doc ''units'' = Some us \<and> u \<in> set us
              \<and> take 1 u = '' '' \<and> u \<noteq> lstrip u))"
proof
  show "\<forall>doc \<in> set module_files. units_prefixed lstrip doc"
    using responsible_bots_units_prefixed ai_fundamentals_units_prefixed
    by (simp add: module_files_def)
next
  let ?doc = ai_machine_learning_fundamentals_index
  let ?u = "'' learn.azure.ai-machine-learning-fundamentals.use-cognitive-services''"
  have "?doc \<in> set module_files" by (simp add: module_files_def)
  moreover note ai_fundamentals_units_raw
  moreover obtain us where "get_string_list ?doc ''units'' = Some us" "?u \<in> set us"
    using ai_fundamentals_leading_space by blast
  moreover have "take 1 ?u = '' ''" by simp
  moreover have "?u \<noteq> lstrip ?u" by (simp add: lstrip_def is_space_def)
  ultimately show "\<exists>doc \<in> set module_files. \<not> units_prefixed (\<lambda>u. u) doc
        \<and> (\<exists>us u. get_string_list doc ''units'' = Some us \<and> u \<in> set us
              \<and> take 1 u = '' '' \<and> u \<noteq> lstrip u)"
    by blast
qed

theorem unit_uids_prefixed_after_lstrip_witness:
  "ai_machine_learning_fundamentals_index \<in> set module_files
   \<and> units_prefixed lstrip ai_machine_learning_fundamentals_index
   \<and> lstrip '' learn.azure.ai-machine-learning-fundamentals.use-cognitive-services''
       = ''learn.azure.ai-machine-learning-fundamentals.use-cognitive-services''
   \<and> unit_of_module ''learn.azure.ai-machine-learning-fundamentals''
       ''learn.azure.ai-machine-learning-fundamentals.use-cognitive-services''"
proof -
  have m: "ai_machine_learning_fundamentals_index \<in> set module_files"
    by (simp add: module_files_def)
  from unit_uids_prefixed_after_lstrip m
  have "units_prefixed lstrip ai_machine_learning_fundamentals_index" by blast
  moreover have "lstrip '' learn.azure.ai-machine-learning-fundamentals.use-cognitive-services''
       = ''learn.azure.ai-machine-learning-fundamentals.use-cognitive-services''"
    by (simp add: lstrip_def is_space_def)
  moreover have "unit_of_module ''learn.azure.ai-machine-learning-fundamentals''
       ''learn.azure.ai-machine-learning-fundamentals.use-cognitive-services''"
    by (simp add: unit_of_module_def)
  ultimately show ?thesis using m by simp
qed


subsection \<open>The features table\<close>

lemma filter_eq_upt: "filter (\<lambda>i. i = j) [0..<n] = (if j < n then [j] else [])"
  by (induction n) auto

lemma label_positions_nth:
  assumes "distinct cols" "j < length cols"
  shows "label_positions cols (cols ! j) = [j]"
proof -
  have "filter (\<lambda>i. cols ! i = cols ! j) [0..<length cols] = filter (\<lambda>i. i = j) [0..<length cols]"
    using assms by (intro filter_cong) (auto simp: nth_eq_iff_index_eq)
  then show ?thesis using assms by (simp add: label_positions_def filter_eq_upt)
qed

lemma concat_singletons: "concat (map (\<lambda>j. [j]) xs) = xs"
  by (induction xs) auto

lemma take_as_map_nth: "take n xs = map (\<lambda>j. xs ! j) [0..<min n (length xs)]"
  by (rule nth_equalityI) auto

lemma positions_take:
  assumes "distinct cols"
  shows "concat (map (label_positions cols) (take n cols)) = [0..<min n (length cols)]"
proof -
  let ?m = "min n (length cols)"
  have "map (label_positions cols) (take n cols)
          = map (\<lambda>j. label_positions cols (cols ! j)) [0..<?m]"
    by (subst take_as_map_nth) (simp add: comp_def)
  also have "\<dots> = map (\<lambda>j. [j]) [0..<?m]"
    using assms by (intro map_cong) (auto simp: label_positions_nth)
  finally show ?thesis by (simp add: concat_singletons)
qed

lemma getitem_labels_take:
  assumes "wf_dataframe df"
  shows "getitem_labels df (take n (columns df))
           = Inr \<lparr>columns = take n (columns df), data_rows = map (take n) (data_rows df)\<rparr>"
proof -
  let ?m = "min n (length (columns df))"
  have d: "distinct (columns df)"
    and len: "\<And>r. r \<in> set (data_rows df) \<Longrightarrow> length r = length (columns df)"
    using assms by (auto simp: wf_dataframe_def list_all_iff)
  have none: "filter (\<lambda>l. l \<notin> set (columns df)) (take n (columns df)) = []"
    by (auto simp: filter_empty_conv dest: in_set_takeD)
  have idx: "concat (map (label_positions (columns df)) (take n (columns df))) = [0..<?m]"
    using d by (rule positions_take)
  have c: "map (\<lambda>j. columns df ! j) [0..<?m] = take n (columns df)"
    by (simp add: take_as_map_nth [symmetric])
  have r: "map (\<lambda>r. map (\<lambda>j. r ! j) [0..<?m]) (data_rows df) = map (take n) (data_rows df)"
  proof (rule map_cong [OF refl])
    fix r assume "r \<in> set (data_rows df)"
    then have "length r = length (columns df)" by (rule len)
    then show "map (\<lambda>j. r ! j) [0..<?m] = take n r"
      by (simp add: take_as_map_nth [of n r])
  qed
  show ?thesis
    by (simp add: getitem_labels_def none idx c r)
qed

lemma wf_take:
  assumes "wf_dataframe df"
  shows "wf_dataframe \<lparr>columns = take n (columns df), data_rows = map (take n) (data_rows df)\<rparr>"
  using assms by (auto simp: wf_dataframe_def list_all_iff)

subsection \<open>Scaling and principal components\<close>

lemma r5: "round64 5 = Val 5"
  using round64_exact [of "of_int 5"] is_fp_of_int [of 5 53 "-1074" 1024]
  by (simp add: is_float64_def)

lemma r_fifth: "round64 (1 / 5) = Val (3602879701896397 / 18014398509481984)"
  unfolding round64_def
  by (subst round_fp_eval [where e = "-3"]) (simp_all add: powr_eval round_half_even_def Let_def)

lemma r_s: "round64 (3602879701896397 / 18014398509481984) = Val (3602879701896397 / 18014398509481984)"
  unfolding round64_def
  by (subst round_fp_eval [where e = "-3"]) (simp_all add: powr_eval round_half_even_def Let_def)

lemma r_negs: "round64 (- (3602879701896397 / 18014398509481984)) = Val (- (3602879701896397 / 18014398509481984))"
  unfolding round64_def
  by (subst round_fp_eval [where e = "-3"]) (simp_all add: powr_eval round_half_even_def Let_def)

lemma fitcol: "minmax_fit_column round64 [1, 6] = (Val (3602879701896397 / 18014398509481984), Val (- (3602879701896397 / 18014398509481984)))"
  by (simp add: minmax_fit_column_def list_min_def list_max_def fp_sub_def handle_zeros_in_scale_def
      r5 r_fifth r_s r_negs powr_eval)

lemma rectangularD: "rectangular M \<Longrightarrow> r \<in> set M \<Longrightarrow> length r = ncols M"
  by (simp add: rectangular_def list_all_iff)

lemma minmax_fit_ok:
  assumes "X \<noteq> []" "0 < ncols X" "rectangular X"
  shows "minmax_fit rnd X = Inr (map (\<lambda>j. minmax_fit_column rnd (column X j)) [0..<ncols X])"
  using assms by (simp add: minmax_fit_def)

lemma minmax_fit_transform_shape:
  assumes "X \<noteq> []" "0 < ncols X" "rectangular X"
  shows "\<exists>S. minmax_fit_transform rnd X = Inr S \<and> length S = length X
           \<and> (\<forall>r \<in> set S. length r = ncols X)"
proof -
  let ?ps = "map (\<lambda>j. minmax_fit_column rnd (column X j)) [0..<ncols X]"
  have "minmax_fit_transform rnd X = Inr (minmax_transform rnd ?ps X)"
    using assms by (simp add: minmax_fit_transform_def minmax_fit_ok)
  moreover have "length (minmax_transform rnd ?ps X) = length X"
    by (simp add: minmax_transform_def)
  moreover have "\<forall>r \<in> set (minmax_transform rnd ?ps X). length r = ncols X"
    using assms(3) by (auto simp: minmax_transform_def dest: rectangularD)
  ultimately show ?thesis by blast
qed

lemma foldl_min_le: "foldl min a xs \<le> a \<and> (\<forall>x \<in> set xs. foldl min a xs \<le> (x::real))"
proof (induction xs arbitrary: a)
  case Nil
  then show ?case by simp
next
  case (Cons y ys)
  from Cons.IH [of "min a y"] show ?case by (auto simp: min_le_iff_disj)
qed

lemma foldl_max_ge: "a \<le> foldl max a xs \<and> (\<forall>x \<in> set xs. (x::real) \<le> foldl max a xs)"
proof (induction xs arbitrary: a)
  case Nil
  then show ?case by simp
next
  case (Cons y ys)
  from Cons.IH [of "max a y"] show ?case by (auto simp: le_max_iff_disj)
qed

lemma list_min_le: "x \<in> set xs \<Longrightarrow> list_min xs \<le> x"
  using foldl_min_le [of "hd xs" "tl xs"] by (cases xs) (auto simp: list_min_def)

lemma list_max_ge: "x \<in> set xs \<Longrightarrow> x \<le> list_max xs"
  using foldl_max_ge [of "hd xs" "tl xs"] by (cases xs) (auto simp: list_max_def)

lemma two_values_range: "two_values col \<Longrightarrow> list_min col < list_max col"
  unfolding two_values_def
  by (metis list_max_ge list_min_le linorder_neqE_linordered_idom order_le_less_trans order_less_le_trans)

lemma exact_entry:
  assumes "two_values col" "x \<in> set col"
  shows "in_unit_interval (minmax_entry Val x (minmax_fit_column Val col))"
proof -
  let ?mn = "list_min col" and ?mx = "list_max col"
  have lt: "?mn < ?mx" using assms(1) by (rule two_values_range)
  have x: "?mn \<le> x" "x \<le> ?mx" using assms(2) by (simp_all add: list_min_le list_max_ge)
  show ?thesis
  proof (cases "?mx - ?mn < 10 * 2 powr - 52")
    case True
    have "10 * 2 powr - 52 < (1::real)" by (simp add: powr_eval)
    with True x have "x - ?mn \<le> 1" by linarith
    with True x show ?thesis
      by (simp add: minmax_fit_column_def Let_def fp_sub_def handle_zeros_in_scale_def
          in_unit_interval_def minmax_entry_def)
  next
    case False
    have "(x - ?mn) / (?mx - ?mn) \<le> 1" using lt x by (simp add: divide_le_eq)
    moreover have "0 \<le> (x - ?mn) / (?mx - ?mn)" using lt x by simp
    moreover have "x * (1 / (?mx - ?mn)) + (0 - ?mn * (1 / (?mx - ?mn))) = (x - ?mn) / (?mx - ?mn)"
      by (simp add: diff_divide_distrib)
    moreover have "fp_add Val (fp_mul Val (Val x) (Val (1 / (?mx - ?mn))))
                     (fp_sub Val (Val 0) (fp_mul Val (Val ?mn) (Val (1 / (?mx - ?mn)))))
                   = Val (x * (1 / (?mx - ?mn)) + (0 - ?mn * (1 / (?mx - ?mn))))"
      by (simp add: fp_sub_def)
    ultimately have "in_unit_interval (fp_add Val (fp_mul Val (Val x) (Val (1 / (?mx - ?mn))))
                     (fp_sub Val (Val 0) (fp_mul Val (Val ?mn) (Val (1 / (?mx - ?mn))))))"
      by (simp add: in_unit_interval_def)
    moreover have "minmax_fit_column Val col
        = (Val (1 / (?mx - ?mn)), fp_sub Val (Val 0) (fp_mul Val (Val ?mn) (Val (1 / (?mx - ?mn)))))"
      using False lt
      by (simp add: minmax_fit_column_def Let_def fp_sub_def handle_zeros_in_scale_def)
    ultimately show ?thesis by (simp add: minmax_entry_def)
  qed
qed

lemma ncols_length: "M \<noteq> [] \<Longrightarrow> \<forall>r \<in> set M. length r = c \<Longrightarrow> ncols M = c"
  by (cases M) (simp_all add: ncols_def)

lemma two_values_length: "two_values col \<Longrightarrow> 2 \<le> length col"
proof -
  assume "two_values col"
  then obtain a b where "a \<in> set col" "b \<in> set col" "a \<noteq> b"
    unfolding two_values_def by blast
  then have "2 \<le> card (set col)"
    by (metis card_2_iff' card_mono empty_subsetI finite_set insert_subset card_2_iff)
  also have "\<dots> \<le> length col" by (rule card_length)
  finally show ?thesis .
qed

lemma pca_shape:
  assumes "2 \<le> length S" "\<forall>r \<in> set S. length r = c" "2 \<le> c" "all_finite S"
    and "\<forall>M. min (length M) (ncols M) \<le> length (principal_axes la M)"
  shows "\<exists>pca T. pca_fit la 2 S = Inr pca \<and> pca_transform la pca S = Inr T
           \<and> length T = length S \<and> (\<forall>r \<in> set T. length r = 2)"
proof -
  have ne: "S \<noteq> []" using assms(1) by auto
  have nc: "ncols S = c" using ne assms(2) by (rule ncols_length)
  let ?pca = "\<lparr>pca_mean = map (\<lambda>j. col_mean la (column S j)) [0..<ncols S],
               pca_components = take 2 (principal_axes la S)\<rparr>"
  have rect: "rectangular S"
    using assms(2) nc by (simp add: rectangular_def list_all_iff)
  have fit: "pca_fit la 2 S = Inr ?pca"
    using ne nc rect assms(1,3,4) by (simp add: pca_fit_def)
  have "2 \<le> length (principal_axes la S)"
    using assms(5) [rule_format, of S] assms(1,3) nc by simp
  then have two: "length (pca_components ?pca) = 2" by simp
  let ?T = "map (\<lambda>row. map (project la row (pca_mean ?pca)) (pca_components ?pca)) S"
  have tr: "pca_transform la ?pca S = Inr ?T"
    using ne rect assms(4) by (simp add: pca_transform_def)
  have "length ?T = length S" by simp
  moreover have "\<forall>r \<in> set ?T. length r = 2" using two by auto
  ultimately show ?thesis using fit tr by blast
qed

lemma exact_entries:
  assumes "X \<noteq> []" "rectangular X" "0 < ncols X" "\<forall>j < ncols X. two_values (column X j)"
  shows "\<exists>E. minmax_fit_transform Val X = Inr E \<and> (\<forall>r \<in> set E. \<forall>v \<in> set r. in_unit_interval v)"
proof -
  let ?ps = "map (\<lambda>j. minmax_fit_column Val (column X j)) [0..<ncols X]"
  let ?f = "minmax_entry Val"
  have E: "minmax_fit_transform Val X = Inr (minmax_transform Val ?ps X)"
    using assms by (simp add: minmax_fit_transform_def minmax_fit_ok)
  have "\<forall>r \<in> set (minmax_transform Val ?ps X). \<forall>v \<in> set r. in_unit_interval v"
  proof (intro ballI)
    fix r v assume "r \<in> set (minmax_transform Val ?ps X)" "v \<in> set r"
    then obtain row where row: "row \<in> set X" and v: "v \<in> set (map2 ?f row ?ps)"
      by (auto simp: minmax_transform_def)
    from v obtain j where j: "j < length row" "j < ncols X" and vj: "v = ?f (row ! j) (?ps ! j)"
      by (auto simp: in_set_conv_nth)
    have "row ! j \<in> set (column X j)" using row by (auto simp: column_def)
    with assms(4) j(2) have "in_unit_interval (minmax_entry Val (row ! j)
            (minmax_fit_column Val (column X j)))"
      by (intro exact_entry) simp_all
    then show "in_unit_interval v" using vj j(2) by simp
  qed
  with E show ?thesis by blast
qed

lemma round64_zero: "round64 0 = Val 0"
  by (simp add: round64_def round_fp_def)

lemma round64_one: "round64 1 = Val 1"
  using round64_exact [of "of_int 1"] is_fp_of_int [of 1 53 "-1074" 1024]
  by (simp add: is_float64_def)

lemma round64_two: "round64 2 = Val 2"
  using round64_exact [of "of_int 2"] is_fp_of_int [of 2 53 "-1074" 1024]
  by (simp add: is_float64_def)

lemma round64_half: "round64 (1 / 2) = Val (1 / 2)"
  unfolding round64_def
  by (subst round_fp_eval [where e = "-1"]) (simp_all add: powr_eval round_half_even_def Let_def)

lemma upt_2: "[0..<2] = [0, 1]"
  by code_simp

text \<open>
  C4. For every non-empty matrix of finite numbers with at least two columns,
  each column holding two distinct values, \<open>MinMaxScaler().fit_transform\<close> returns a
  matrix with the same number of rows and of columns as its input; whenever that matrix
  is finite, \<open>PCA(n_components=2)\<close> fitted on it transforms it to a matrix with the same
  number of rows and exactly two columns (for any numerics that return
  \<open>min(n_samples, n_features)\<close> principal axes). Every entry of the scaled matrix lies in
  \<open>[0, 1]\<close> when the scaler's formula is computed exactly; in \<open>float64\<close> it need not,
  as the example after the theorem shows.
\<close>

theorem preprocessing_shapes:
  assumes "X \<noteq> []" and "rectangular X" and "2 \<le> ncols X"
    and "\<forall>j < ncols X. two_values (column X j)"
    and "\<forall>M. min (length M) (ncols M) \<le> length (principal_axes la M)"
  shows "(\<exists>S. minmax_fit_transform round64 X = Inr S \<and> length S = length X
            \<and> (\<forall>r \<in> set S. length r = ncols X)
            \<and> (all_finite S \<longrightarrow>
                 (\<exists>pca T. pca_fit la 2 S = Inr pca \<and> pca_transform la pca S = Inr T
                     \<and> length T = length X \<and> (\<forall>r \<in> set T. length r = 2))))
         \<and> (\<exists>E. minmax_fit_transform Val X = Inr E
              \<and> (\<forall>r \<in> set E. \<forall>v \<in> set r. in_unit_interval v))"
proof
  have pos: "0 < ncols X" using assms(3) by simp
  from minmax_fit_transform_shape [OF assms(1) pos assms(2), of round64]
  obtain S where S: "minmax_fit_transform round64 X = Inr S" "length S = length X"
    "\<forall>r \<in> set S. length r = ncols X" by blast
  have "two_values (column X 0)" using assms(4) pos by simp
  then have "2 \<le> length (column X 0)" by (rule two_values_length)
  then have n2: "2 \<le> length S" using S(2) by (simp add: column_def)
  have "all_finite S \<longrightarrow>
                 (\<exists>pca T. pca_fit la 2 S = Inr pca \<and> pca_transform la pca S = Inr T
                     \<and> length T = length X \<and> (\<forall>r \<in> set T. length r = 2))"
    using pca_shape [OF n2 S(3) assms(3) _ assms(5)] S(2) by auto
  with S show "\<exists>S. minmax_fit_transform round64 X = Inr S \<and> length S = length X
            \<and> (\<forall>r \<in> set S. length r = ncols X)
            \<and> (all_finite S \<longrightarrow>
                 (\<exists>pca T. pca_fit la 2 S = Inr pca \<and> pca_transform la pca S = Inr T
                     \<and> length T = length X \<and> (\<forall>r \<in> set T. length r = 2)))"
    by blast
next
  show "\<exists>E. minmax_fit_transform Val X = Inr E
              \<and> (\<forall>r \<in> set E. \<forall>v \<in> set r. in_unit_interval v)"
    using assms by (intro exact_entries) simp_all
qed

theorem preprocessing_shapes_witness:
  "minmax_fit_transform round64 [[0, 0], [1, 2]] = Inr [[Val 0, Val 0], [Val 1, Val 1]]
   \<and> all_finite [[Val 0, Val 0], [Val 1, Val 1]]
   \<and> (\<exists>pca T. pca_fit axis_linalg 2 [[Val 0, Val 0], [Val 1, Val 1]] = Inr pca
         \<and> pca_transform axis_linalg pca [[Val 0, Val 0], [Val 1, Val 1]] = Inr T
         \<and> length T = 2 \<and> list_all (\<lambda>r. length r = 2) T)
   \<and> (\<exists>E. minmax_fit_transform Val [[0, 0], [1, 2]] = Inr E
         \<and> list_all (list_all in_unit_interval) E)"
proof -
  let ?X = "[[0, 0], [1, 2 :: real]]"
  have nc: "ncols ?X = 2" by (simp add: ncols_def)
  have h1: "?X \<noteq> []" by simp
  have h2: "rectangular ?X" by (simp add: rectangular_def ncols_def)
  have h3: "2 \<le> ncols ?X" by (simp add: nc)
  have h4: "\<forall>j < ncols ?X. two_values (column ?X j)"
    by (auto simp: nc column_def two_values_def less_Suc_eq numeral_2_eq_2)
  have h5: "\<forall>M. min (length M) (ncols M) \<le> length (principal_axes axis_linalg M)"
    by (simp add: axis_linalg_def)
  have S: "minmax_fit_transform round64 ?X = Inr [[Val 0, Val 0], [Val 1, Val 1]]"
    by (simp add: minmax_fit_transform_def minmax_fit_def h2 nc upt_2 column_def
        minmax_fit_column_def list_min_def list_max_def fp_sub_def handle_zeros_in_scale_def
        minmax_transform_def minmax_entry_def powr_eval
        round64_zero round64_one round64_two round64_half)
  have fin: "all_finite [[Val 0, Val 0], [Val 1, Val 1]]" by (simp add: all_finite_def)
  from preprocessing_shapes [OF h1 h2 h3 h4 h5] S fin show ?thesis
    by (auto simp: list_all_iff)
qed

lemma r_1s: "round64 (1 * (3602879701896397 / 18014398509481984))
               = Val (3602879701896397 / 18014398509481984)"
  using r_s by simp

lemma r_cancel: "round64 (3602879701896397 / 18014398509481984 + - (3602879701896397 / 18014398509481984))
               = Val 0"
  by (simp add: round64_zero)

lemma r_6s: "round64 (6 * (3602879701896397 / 18014398509481984)) = Val (5404319552844596 / 4503599627370496)"
  unfolding round64_def
  by (subst round_fp_eval [where e = "0"]) (simp_all add: powr_eval round_half_even_def Let_def)

lemma r_top: "round64 (5404319552844596 / 4503599627370496 + - (3602879701896397 / 18014398509481984))
                = Val (4503599627370497 / 4503599627370496)"
  unfolding round64_def
  by (subst round_fp_eval [where e = "0"]) (simp_all add: powr_eval round_half_even_def Let_def)

lemma entry_min:
  "minmax_entry round64 1 (Val (3602879701896397 / 18014398509481984),
                           Val (- (3602879701896397 / 18014398509481984))) = Val 0"
  by (simp only: minmax_entry_def prod.case fp_mul.simps fp_add.simps r_1s r_cancel)

lemma entry_max:
  "minmax_entry round64 6 (Val (3602879701896397 / 18014398509481984),
                           Val (- (3602879701896397 / 18014398509481984)))
     = Val (4503599627370497 / 4503599627370496)"
  by (simp only: minmax_entry_def prod.case fp_mul.simps fp_add.simps r_6s r_top)

lemma upt_6: "[0..<6] = [0, 1, 2, 3, 4, 5]"
  by code_simp

text \<open>
  The claim as the specification has it fails in \<open>float64\<close>: on six columns holding \<open>1\<close>
  and \<open>6\<close>, \<open>scale_\<close> is \<open>1 / 5\<close> rounded, \<open>min_\<close> is its negation, and
  \<open>6 * scale_ + min_\<close> is \<open>1 + 2\<^sup>-\<^sup>5\<^sup>2\<close>, above \<open>1\<close>.
\<close>

theorem minmax_exceeds_one:
  "minmax_fit_transform round64 [[1, 1, 1, 1, 1, 1], [6, 6, 6, 6, 6, 6]]
     = Inr [[Val 0, Val 0, Val 0, Val 0, Val 0, Val 0],
            [Val (4503599627370497 / 4503599627370496), Val (4503599627370497 / 4503599627370496),
             Val (4503599627370497 / 4503599627370496), Val (4503599627370497 / 4503599627370496),
             Val (4503599627370497 / 4503599627370496), Val (4503599627370497 / 4503599627370496)]]
   \<and> \<not> in_unit_interval (Val (4503599627370497 / 4503599627370496))"
proof -
  let ?X = "[[1, 1, 1, 1, 1, 1], [6, 6, 6, 6, 6, 6 :: real]]"
  have nc: "ncols ?X = 6" by (simp add: ncols_def)
  have cols: "map (\<lambda>j. minmax_fit_column round64 (column ?X j)) [0..<6]
                = replicate 6 (minmax_fit_column round64 [1, 6])"
    by (simp add: upt_6 column_def eval_nat_numeral)
  have rect: "rectangular ?X" by (simp add: rectangular_def nc)
  have fit: "minmax_fit round64 ?X = Inr (replicate 6 (minmax_fit_column round64 [1, 6]))"
    by (simp add: minmax_fit_def rect nc cols)
  show ?thesis
    unfolding minmax_fit_transform_def fit fitcol
    by (simp add: minmax_transform_def eval_nat_numeral entry_min entry_max in_unit_interval_def)
qed

text \<open>
  C5. When the loaded table is a well-formed frame with at least six columns, the
  \<open>features\<close> table is exactly its first six columns: their labels, and of every row the
  first six cells, which is also what \<open>features.values\<close>, the matrix KMeans is fitted on,
  holds. Selecting \<open>data.columns[0:6]\<close> from it again, as the normalisation cell does,
  returns the same table; when the table has a row, the scaler returns for it a matrix
  \<open>scaled_features\<close> with one row per row of the table and six entries in every row, and
  that matrix is what \<open>PCA\<close> is fitted on and transforms.
\<close>

theorem features_first_six:
  assumes "wf_dataframe data" and "6 \<le> length (columns data)"
  shows "\<exists>features. features_of data = Inr features
           \<and> columns features = take 6 (columns data)
           \<and> data_rows features = map (take 6) (data_rows data)
           \<and> df_values features = map (take 6) (data_rows data)
           \<and> length (columns features) = 6
           \<and> (\<forall>row \<in> set (df_values features). length row = 6)
           \<and> scaler_input data features = Inr features
           \<and> (data_rows data \<noteq> [] \<longrightarrow>
                (\<exists>scaled. scaled_features_of data features = Inr scaled
                   \<and> minmax_fit_transform round64 (map (take 6) (data_rows data)) = Inr scaled
                   \<and> length scaled = length (data_rows data)
                   \<and> (\<forall>row \<in> set scaled. length row = 6)
                   \<and> preprocess la data features
                       = (case pca_fit la 2 scaled of
                            Inl e \<Rightarrow> Inl e
                          | Inr pca \<Rightarrow>
                              (case pca_transform la pca scaled of
                                 Inl e \<Rightarrow> Inl e
                               | Inr features_2d \<Rightarrow> Inr (scaled, pca, features_2d)))))"
proof -
  let ?F = "\<lparr>columns = take 6 (columns data), data_rows = map (take 6) (data_rows data)\<rparr>"
  let ?X = "map (take 6) (data_rows data)"
  have len: "\<And>r. r \<in> set (data_rows data) \<Longrightarrow> length r = length (columns data)"
    using assms(1) by (auto simp: wf_dataframe_def list_all_iff)
  have 1: "features_of data = Inr ?F"
    using getitem_labels_take [OF assms(1), of 6] by (simp add: features_of_def index_slice_def)
  have wfF: "wf_dataframe ?F" using assms(1) by (rule wf_take)
  have "getitem_labels ?F (take 6 (columns ?F)) = Inr ?F"
    using getitem_labels_take [OF wfF, of 6] by simp
  then have 2: "scaler_input data ?F = Inr ?F"
    by (simp add: scaler_input_def index_slice_def)
  have 3: "\<forall>row \<in> set ?X. length row = 6"
    using len assms(2) by auto
  have 4: "length (columns ?F) = 6" using assms(2) by simp
  have 5: "\<exists>scaled. scaled_features_of data ?F = Inr scaled
                   \<and> minmax_fit_transform round64 ?X = Inr scaled
                   \<and> length scaled = length (data_rows data)
                   \<and> (\<forall>row \<in> set scaled. length row = 6)
                   \<and> preprocess la data ?F
                       = (case pca_fit la 2 scaled of
                            Inl e \<Rightarrow> Inl e
                          | Inr pca \<Rightarrow>
                              (case pca_transform la pca scaled of
                                 Inl e \<Rightarrow> Inl e
                               | Inr features_2d \<Rightarrow> Inr (scaled, pca, features_2d)))"
    if ne: "data_rows data \<noteq> []"
  proof -
    have X: "?X \<noteq> []" using ne by simp
    have nc: "ncols ?X = 6" using X 3 by (rule ncols_length)
    have rect: "rectangular ?X" using 3 by (simp add: rectangular_def nc list_all_iff)
    from minmax_fit_transform_shape [OF X _ rect, of round64] nc
    obtain S where S: "minmax_fit_transform round64 ?X = Inr S" "length S = length ?X"
      "\<forall>r \<in> set S. length r = 6" by auto
    have "scaled_features_of data ?F = Inr S"
      using 2 S(1) by (simp add: scaled_features_of_def df_values_def)
    then show ?thesis using S by (intro exI [of _ S]) (simp add: preprocess_def pca_stage_def)
  qed
  show ?thesis using 1 2 3 4 5 by (intro exI [of _ ?F]) (simp add: df_values_def)
qed

theorem features_first_six_witness:
  "wf_dataframe
     \<lparr>columns = [''area'', ''perimeter'', ''compactness'', ''kernel_length'', ''kernel_width'',
                  ''asymmetry_coefficient'', ''groove_length'', ''species''],
      data_rows = [[15, 14, 1, 5, 3, 2, 5, 0], [13, 12, 2, 4, 3, 6, 4, 2]]\<rparr>
   \<and> features_of
     \<lparr>columns = [''area'', ''perimeter'', ''compactness'', ''kernel_length'', ''kernel_width'',
                  ''asymmetry_coefficient'', ''groove_length'', ''species''],
      data_rows = [[15, 14, 1, 5, 3, 2, 5, 0], [13, 12, 2, 4, 3, 6, 4, 2]]\<rparr>
     = Inr \<lparr>columns = [''area'', ''perimeter'', ''compactness'', ''kernel_length'',
                          ''kernel_width'', ''asymmetry_coefficient''],
              data_rows = [[15, 14, 1, 5, 3, 2], [13, 12, 2, 4, 3, 6]]\<rparr>
   \<and> df_values \<lparr>columns = [''area'', ''perimeter'', ''compactness'', ''kernel_length'',
                          ''kernel_width'', ''asymmetry_coefficient''],
              data_rows = [[15, 14, 1, 5, 3, 2], [13, 12, 2, 4, 3, 6]]\<rparr>
     = [[15, 14, 1, 5, 3, 2], [13, 12, 2, 4, 3, 6]]
   \<and> (\<exists>scaled. scaled_features_of
     \<lparr>columns = [''area'', ''perimeter'', ''compactness'', ''kernel_length'', ''kernel_width'',
                  ''asymmetry_coefficient'', ''groove_length'', ''species''],
      data_rows = [[15, 14, 1, 5, 3, 2, 5, 0], [13, 12, 2, 4, 3, 6, 4, 2]]\<rparr>
     \<lparr>columns = [''area'', ''perimeter'', ''compactness'', ''kernel_length'',
                          ''kernel_width'', ''asymmetry_coefficient''],
              data_rows = [[15, 14, 1, 5, 3, 2], [13, 12, 2, 4, 3, 6]]\<rparr> = Inr scaled
       \<and> length scaled = 2 \<and> list_all (\<lambda>row. length row = 6) scaled)"
proof -
  let ?data = "\<lparr>columns = [''area'', ''perimeter'', ''compactness'', ''kernel_length'',
                  ''kernel_width'', ''asymmetry_coefficient'', ''groove_length'', ''species''],
      data_rows = [[15, 14, 1, 5, 3, 2, 5, 0], [13, 12, 2, 4, 3, 6, 4, 2 :: real]]\<rparr>"
  let ?F = "\<lparr>columns = [''area'', ''perimeter'', ''compactness'', ''kernel_length'',
                          ''kernel_width'', ''asymmetry_coefficient''],
              data_rows = [[15, 14, 1, 5, 3, 2], [13, 12, 2, 4, 3, 6 :: real]]\<rparr>"
  have wf: "wf_dataframe ?data" by (simp add: wf_dataframe_def)
  have six: "6 \<le> length (columns ?data)" by simp
  have ne: "data_rows ?data \<noteq> []" by simp
  from features_first_six [OF wf six, of undefined]
  obtain features where f: "features_of ?data = Inr features"
    "columns features = take 6 (columns ?data)"
    "data_rows features = map (take 6) (data_rows ?data)"
    "df_values features = map (take 6) (data_rows ?data)"
    "data_rows ?data \<noteq> [] \<longrightarrow>
       (\<exists>scaled. scaled_features_of ?data features = Inr scaled
          \<and> length scaled = length (data_rows ?data)
          \<and> (\<forall>row \<in> set scaled. length row = 6))"
    by blast
  have eq: "features = ?F"
    using f(2,3) by (intro dataframe.equality) simp_all
  from f(5) ne obtain scaled where "scaled_features_of ?data features = Inr scaled"
    "length scaled = 2" "\<forall>row \<in> set scaled. length row = 6"
    by auto
  then have "\<exists>scaled. scaled_features_of ?data ?F = Inr scaled
       \<and> length scaled = 2 \<and> list_all (\<lambda>row. length row = 6) scaled"
    unfolding eq by (auto simp: list_all_iff)
  moreover have "df_values ?F = [[15, 14, 1, 5, 3, 2], [13, 12, 2, 4, 3, 6]]"
    using f(4) unfolding eq by simp
  ultimately show ?thesis using wf f(1) unfolding eq by blast
qed

subsection \<open>Exceptions end a cell\<close>

lemma propagatesD:
  assumes "propagates m"
  obtains r w' new where "m (w, tr) = (r, (w', tr @ new))" "raise_is_final r new"
  using assms unfolding propagates_def by (metis prod.collapse)

lemma propagatesI:
  assumes "\<And>w tr. \<exists>r w' new. m (w, tr) = (r, (w', tr @ new)) \<and> raise_is_final r new"
  shows "propagates m"
  unfolding propagates_def
proof (intro allI)
  fix w tr
  from assms [of w tr] obtain r w' new where "m (w, tr) = (r, (w', tr @ new))" "raise_is_final r new"
    by blast
  then show "\<exists>new. snd (snd (m (w, tr))) = tr @ new \<and> raise_is_final (fst (m (w, tr))) new"
    by auto
qed

lemma raise_is_final_Inr_append:
  "raise_is_final (Inr a :: py_error + 'a) new \<Longrightarrow> raise_is_final r (new @ post) = raise_is_final r post"
  by (induction "Inr a :: py_error + 'a" new rule: raise_is_final.induct) auto

lemma raise_is_final_Inl_unwind:
  "raise_is_final (Inl e :: py_error + 'a) new \<Longrightarrow> list_all is_unwinding post
     \<Longrightarrow> raise_is_final (Inl e :: py_error + 'a) (new @ post)"
  by (induction "Inl e :: py_error + 'a" new rule: raise_is_final.induct) auto

lemma raise_is_final_retype:
  "raise_is_final (Inr a :: py_error + 'a) new \<Longrightarrow> raise_is_final (Inr b :: py_error + 'b) new"
  by (induction "Inr a :: py_error + 'a" new rule: raise_is_final.induct) auto

lemma raise_is_final_retype_Inl:
  "raise_is_final (Inl e :: py_error + 'a) new \<Longrightarrow> raise_is_final (Inl e :: py_error + 'b) new"
  by (induction "Inl e :: py_error + 'a" new rule: raise_is_final.induct) auto

lemma propagates_return: "propagates (return_py a)"
  by (rule propagatesI) (simp add: return_py_def)

lemma propagates_bind:
  assumes "propagates m" "\<And>a. propagates (k a)"
  shows "propagates (bind_py m k)"
proof (rule propagatesI)
  fix w tr
  from assms(1) obtain r w' new where m: "m (w, tr) = (r, (w', tr @ new))" "raise_is_final r new"
    by (rule propagatesD)
  show "\<exists>r w' new. bind_py m k (w, tr) = (r, (w', tr @ new)) \<and> raise_is_final r new"
  proof (cases r)
    case (Inl e)
    with m show ?thesis by (auto simp: bind_py_def dest: raise_is_final_retype_Inl)
  next
    case (Inr a)
    from assms(2) [of a] obtain r2 w2 new2
      where k: "k a (w', tr @ new) = (r2, (w2, (tr @ new) @ new2))" "raise_is_final r2 new2"
      by (rule propagatesD)
    have "raise_is_final r2 (new @ new2)"
      using m(2) k(2) Inr by (simp add: raise_is_final_Inr_append)
    with m(1) k(1) Inr show ?thesis by (auto simp: bind_py_def)
  qed
qed

lemma propagates_log_call: "propagates (log_call ev m)"
proof (rule propagatesI)
  fix w tr
  obtain r w' where "m w = (r, w')" by (cases "m w")
  then have "log_call ev m (w, tr) = (r, (w', tr @ [(ev, r)]))" "raise_is_final r [(ev, r)]"
    by (cases r; simp add: log_call_def)+
  then show "\<exists>r w' new. log_call ev m (w, tr) = (r, (w', tr @ new)) \<and> raise_is_final r new"
    by blast
qed

lemma propagates_log_as: "propagates (log_as shown ev m)"
proof (rule propagatesI)
  fix w tr
  obtain r w' where m: "m w = (r, w')" by (cases "m w")
  show "\<exists>r w' new. log_as shown ev m (w, tr) = (r, (w', tr @ new)) \<and> raise_is_final r new"
  proof (cases r)
    case (Inl e)
    with m show ?thesis
      by (intro exI [of _ "Inl e"] exI [of _ w'] exI [of _ "[(ev, Inl e)]"])
        (simp add: log_as_def)
  next
    case (Inr a)
    with m show ?thesis
      by (intro exI [of _ "Inr a"] exI [of _ w'] exI [of _ "[(ev, Inr (shown a))]"])
        (simp add: log_as_def)
  qed
qed

lemma propagates_lib [simp]:
  "propagates (import_module (logged lib) n)"
  "propagates (getattr (logged lib) obj n)"
  "propagates (call (logged lib) fn args)"
  "propagates (getitem (logged lib) obj key)"
  "propagates (setitem (logged lib) obj key v)"
  "propagates (builtin (logged lib) n args)"
  "propagates (print (logged lib) v)"
  "propagates (unpack2 (logged lib) v)"
  "propagates (format_value (logged lib) v)"
  "propagates (run_line_magic (logged lib) n line)"
  "propagates (tape_enter (logged lib) cm)"
  by (simp_all add: logged_def propagates_log_call propagates_log_as)

lemma propagates_shell [simp]: "propagates (shell (logged lib) cmd)"
  by (rule propagatesI) (simp add: shell_def logged_def)

lemma propagates_call_method [simp]: "propagates (call_method (logged lib) obj n args)"
  unfolding call_method_def by (intro propagates_bind) simp_all

lemma propagates_import_from [simp]: "propagates (import_from (logged lib) m n)"
  unfolding import_from_def by (intro propagates_bind) simp_all

lemma propagates_with_tape:
  assumes "\<And>tape. propagates (body tape)"
  shows "propagates (with_tape (logged lib) cm body)"
  unfolding with_tape_def
proof (rule propagates_bind)
  show "propagates (tape_enter (logged lib) cm)" by simp
next
  fix tape
  show "propagates (\<lambda>w. case body tape w of (r, w') \<Rightarrow> (r, tape_exit (logged lib) cm w'))"
  proof (rule propagatesI)
    fix w tr
    from assms [of tape] obtain r w' new
      where b: "body tape (w, tr) = (r, (w', tr @ new))" "raise_is_final r new"
      by (rule propagatesD)
    have "raise_is_final r (new @ [(Exit cm, Inr PNone)])"
    proof (cases r)
      case (Inl e)
      with b(2) show ?thesis by (auto intro: raise_is_final_Inl_unwind)
    next
      case (Inr a)
      with b(2) show ?thesis by (simp add: raise_is_final_Inr_append)
    qed
    with b(1) show "\<exists>r' w'' new'. (case body tape (w, tr) of (r, w') \<Rightarrow> (r, tape_exit (logged lib) cm w'))
          = (r', (w'', tr @ new')) \<and> raise_is_final r' new'"
      by (auto simp: logged_def)
  qed
qed

lemmas propagates_intros =
  propagates_bind propagates_return propagates_with_tape

lemma propagates_case_prod [simp]:
  "(\<And>a b. propagates (k a b)) \<Longrightarrow> propagates (case p of (a, b) \<Rightarrow> k a b)"
  by (cases p) simp

lemma propagates_seeds_load_cell: "propagates (seeds_load_cell (logged lib))"
  unfolding seeds_load_cell_def
  by (intro propagates_intros) simp_all

lemma propagates_preprocess_cell: "propagates (preprocess_cell (logged lib) data features)"
  unfolding preprocess_cell_def
  by (intro propagates_intros) simp_all

lemma propagates_wcss_iteration [simp]: "propagates (wcss_iteration (logged lib) K F i)"
  unfolding wcss_iteration_def
  by (intro propagates_intros) simp_all

lemma propagates_wcss_loop [simp]: "propagates (wcss_loop (logged lib) K F is acc)"
  by (induction "is" arbitrary: acc) (auto intro!: propagates_intros)

lemma propagates_cluster_count_search [simp]: "propagates (cluster_count_search (logged lib) K F)"
  by (simp add: cluster_count_search_def)

lemma propagates_wcss_cell: "propagates (wcss_cell (logged lib) features)"
  unfolding wcss_cell_def
  by (intro propagates_intros) simp_all

lemma propagates_fashion_mnist [simp]: "propagates (fashion_mnist (logged lib) d t b)"
  unfolding fashion_mnist_def
  by (intro propagates_intros) simp_all

lemma propagates_fashion_load_cell: "propagates (fashion_load_cell (logged lib))"
  unfolding fashion_load_cell_def
  by (intro propagates_intros) simp_all

lemma propagates_print_gradients [simp]: "propagates (print_gradients (logged lib) t y U V)"
  unfolding print_gradients_def
  by (intro propagates_intros) simp_all

lemma propagates_sum_of_product [simp]: "propagates (sum_of_product (logged lib) tf U V)"
  unfolding sum_of_product_def
  by (intro propagates_intros) simp_all

lemma propagates_tf_variable [simp]: "propagates (tf_variable (logged lib) tf l)"
  unfolding tf_variable_def
  by (intro propagates_intros) simp_all

lemma propagates_gradient_cell: "propagates (gradient_cell (logged lib) tf)"
  unfolding gradient_cell_def gradient_cell_on_def
  by (intro propagates_intros propagates_case_prod) simp_all

lemma propagates_gradient_variables_cell: "propagates (gradient_variables_cell (logged lib) tf)"
  unfolding gradient_variables_cell_def gradient_variables_cell_on_def
  by (intro propagates_intros propagates_case_prod) simp_all

lemma propagates_scatter_cell: "propagates (scatter_cell (logged lib) features_2d)"
  unfolding scatter_cell_def
  by (intro propagates_intros) simp_all

lemma propagates_show_sample [simp]:
  "propagates (show_sample (logged lib) torch plt td labels fig cols rows i)"
  unfolding show_sample_def
  by (intro propagates_intros propagates_case_prod) simp_all

lemma propagates_show_samples_loop [simp]:
  "propagates (show_samples_loop (logged lib) torch plt td labels fig cols rows is)"
  by (induction "is") (auto intro!: propagates_intros)

lemma propagates_show_samples_cell:
  "propagates (show_samples_cell (logged lib) torch plt training_data)"
  unfolding show_samples_cell_def Let_def
  by (intro propagates_intros) simp_all

lemma propagates_dataloader_cell:
  "propagates (dataloader_cell (logged lib) training_data test_data)"
  unfolding dataloader_cell_def
  by (intro propagates_intros) simp_all

lemma propagates_print_size [simp]: "propagates (print_size (logged lib) heading batch)"
  unfolding print_size_def
  by (intro propagates_intros) simp_all

lemma propagates_first_batch_cell:
  "propagates (first_batch_cell (logged lib) plt train_dataloader)"
  unfolding first_batch_cell_def
  by (intro propagates_intros propagates_case_prod) simp_all

lemma propagates_ds_lambda: "propagates (ds_lambda (logged lib) torch y)"
  unfolding ds_lambda_def
  by (intro propagates_intros) simp_all

lemma propagates_ds_cell: "propagates (ds_cell (logged lib))"
  unfolding ds_cell_def
  by (intro propagates_intros) simp_all

lemma propagates_target_transform_lambda:
  "propagates (target_transform_lambda (logged lib) torch y)"
  unfolding target_transform_lambda_def
  by (intro propagates_intros) simp_all

lemma propagates_target_transform_cell:
  "propagates (target_transform_cell (logged lib) Lambda)"
  unfolding target_transform_cell_def by simp

lemma propagates_tf_import_cell: "propagates (tf_import_cell (logged lib))"
  unfolding tf_import_cell_def
  by (intro propagates_intros) simp_all

subsection \<open>The cluster-count search\<close>

lemma wcss_iteration_trace:
  assumes "wcss_iteration (logged lib) K F i (w, tr) = (Inr inertia, (w', tr'))"
  shows "\<exists>it. tr' = tr @ iteration_trace K F i it \<and> it_inertia it = inertia"
proof -
  from assms obtain km fm X r where
    "tr' = tr @ [(Call K [Kw ''n_clusters'' (PInt i)], Inr km), (GetAttr km ''fit'', Inr fm),
                 (GetAttr F ''values'', Inr X), (Call fm [Pos X], Inr r),
                 (GetAttr km ''inertia_'', Inr inertia)]"
    by (auto simp: wcss_iteration_def bind_py_def logged_def log_call_def
        split: prod.splits sum.splits)
  then have "tr' = tr @ iteration_trace K F i
      \<lparr>it_model = km, it_fit = fm, it_X = X, it_fitted = r, it_inertia = inertia\<rparr>"
    by (simp add: iteration_trace_def)
  then show ?thesis by (metis iteration.select_convs(5))
qed

lemma wcss_loop_trace:
  assumes "wcss_loop (logged lib) K F is acc (w, tr) = (Inr out, (w', tr'))"
  shows "\<exists>its. length its = length is
           \<and> tr' = tr @ concat (map2 (iteration_trace K F) is its)
           \<and> out = acc @ map it_inertia its"
  using assms
proof (induction "is" arbitrary: acc w tr)
  case Nil
  then show ?case by (simp add: return_py_def)
next
  case (Cons i rest)
  from Cons.prems obtain inertia w1 tr1 where
    step: "wcss_iteration (logged lib) K F i (w, tr) = (Inr inertia, (w1, tr1))"
    and rest: "wcss_loop (logged lib) K F rest (acc @ [inertia]) (w1, tr1) = (Inr out, (w', tr'))"
    by (auto simp: bind_py_def split: prod.splits sum.splits)
  from wcss_iteration_trace [OF step] obtain it where
    it: "tr1 = tr @ iteration_trace K F i it" "it_inertia it = inertia" by blast
  from Cons.IH [OF rest] obtain its where
    its: "length its = length rest"
      "tr' = tr1 @ concat (map2 (iteration_trace K F) rest its)"
      "out = (acc @ [inertia]) @ map it_inertia its" by blast
  show ?case
    using it its by (intro exI [of _ "it # its"]) simp
qed

lemma concat_map2_index:
  assumes "length ys = length xs"
  shows "concat (map2 g xs ys) = concat (map (\<lambda>k. g (xs ! k) (ys ! k)) [0..<length xs])"
proof -
  have "map2 g xs ys = map (\<lambda>k. g (xs ! k) (ys ! k)) [0..<length xs]"
    using assms by (intro nth_equalityI) simp_all
  then show ?thesis by simp
qed

lemma py_range_as_map: "py_range start stop = map (\<lambda>k. int k + start) [0..<nat (stop - start)]"
  unfolding py_range_def by (rule nth_equalityI) (auto simp: add.commute)

lemma py_range_1_11: "py_range 1 11 = map (\<lambda>k. int k + 1) [0..<10]"
  by (simp add: py_range_as_map)

text \<open>
  C1. The search runs the loop body for \<open>i = 1, ..., 10\<close> in this order. When it
  returns the list \<open>wcss\<close>, its requests to the library are exactly, for each \<open>i\<close> in
  turn: build one \<open>KMeans(n_clusters = i)\<close>, read its \<open>fit\<close>, read \<open>features.values\<close>, fit
  on that matrix, read the model's \<open>inertia_\<close>; \<open>wcss\<close> has 10 elements, and the one at
  index \<open>k\<close> is the inertia read from the model built with \<open>k + 1\<close> clusters. When it
  does not return a list, a request raised and the exception ended the search.
\<close>

theorem cluster_count_search_trace:
  assumes "cluster_count_search (logged lib) KMeans features (w, []) = (r, (w', tr))"
  shows "case r of
           Inr wcss \<Rightarrow>
             \<exists>its. length its = 10
               \<and> tr = concat (map (\<lambda>k. iteration_trace KMeans features (int k + 1) (its ! k)) [0..<10])
               \<and> length wcss = 10
               \<and> (\<forall>k<10. wcss ! k = it_inertia (its ! k))
         | Inl e \<Rightarrow> raise_is_final r tr"
proof (cases r)
  case (Inl e)
  have "propagates (cluster_count_search (logged lib) KMeans features)" by simp
  then obtain r0 w0 new where
    "cluster_count_search (logged lib) KMeans features (w, []) = (r0, (w0, [] @ new))"
    "raise_is_final r0 new"
    by (rule propagatesD)
  with assms Inl show ?thesis by simp
next
  case (Inr wcss)
  let ?is = "map (\<lambda>k. int k + 1) [0..<10]"
  from assms Inr have "wcss_loop (logged lib) KMeans features ?is [] (w, []) = (Inr wcss, (w', tr))"
    by (simp add: cluster_count_search_def py_range_1_11)
  from wcss_loop_trace [OF this] obtain its where
    its: "length its = length ?is"
      "tr = [] @ concat (map2 (iteration_trace KMeans features) ?is its)"
      "wcss = [] @ map it_inertia its" by blast
  have len: "length its = 10" using its(1) by simp
  have "concat (map2 (iteration_trace KMeans features) ?is its)
          = concat (map (\<lambda>k. iteration_trace KMeans features (?is ! k) (its ! k)) [0..<length ?is])"
    using its(1) by (rule concat_map2_index)
  also have "\<dots> = concat (map (\<lambda>k. iteration_trace KMeans features (int k + 1) (its ! k)) [0..<10])"
    by (intro arg_cong [where f = concat] map_cong) (simp_all del: upt_Suc)
  finally have tr: "tr = concat (map (\<lambda>k. iteration_trace KMeans features (int k + 1) (its ! k)) [0..<10])"
    using its(2) by simp
  have "\<forall>k<10. wcss ! k = it_inertia (its ! k)" using its(3) len by simp
  with len tr its(3) Inr show ?thesis by auto
qed

lemmas run_simps =
  bind_py_def return_py_def call_method_def import_from_def shell_def with_tape_def
  logged_def log_call_def offline_lib_def

lemma py_range_1_11_list: "py_range 1 11 = [1, 2, 3, 4, 5, 6, 7, 8, 9, 10]"
  by (simp add: py_range_def upto.simps)

lemma offline_search_result:
  "fst (cluster_count_search (logged offline_lib) (PObj (''KMeans'', 0))
          (PObj (''DataFrame'', 0)) (False, []))
     = Inr [PFloat 10, PFloat 9, PFloat 8, PFloat 7, PFloat 6,
            PFloat 5, PFloat 4, PFloat 3, PFloat 2, PFloat 1]"
  by (simp add: cluster_count_search_def py_range_1_11_list wcss_iteration_def run_simps)

theorem cluster_count_search_trace_witness:
  "fst (cluster_count_search (logged offline_lib) (PObj (''KMeans'', 0))
          (PObj (''DataFrame'', 0)) (False, []))
     = Inr [PFloat 10, PFloat 9, PFloat 8, PFloat 7, PFloat 6,
            PFloat 5, PFloat 4, PFloat 3, PFloat 2, PFloat 1]
   \<and> (\<exists>its. length its = 10
        \<and> snd (snd (cluster_count_search (logged offline_lib) (PObj (''KMeans'', 0))
                      (PObj (''DataFrame'', 0)) (False, [])))
            = concat (map (\<lambda>k. iteration_trace (PObj (''KMeans'', 0)) (PObj (''DataFrame'', 0))
                                 (int k + 1) (its ! k)) [0..<10]))"
proof -
  let ?run = "cluster_count_search (logged offline_lib) (PObj (''KMeans'', 0))
                (PObj (''DataFrame'', 0)) (False, [])"
  obtain r w' tr where run: "?run = (r, (w', tr))" by (metis prod.collapse)
  have r: "r = Inr [PFloat 10, PFloat 9, PFloat 8, PFloat 7, PFloat 6,
                    PFloat 5, PFloat 4, PFloat 3, PFloat 2, PFloat 1]"
    using offline_search_result run by simp
  from cluster_count_search_trace [OF run] r
  have "\<exists>its. length its = 10
          \<and> tr = concat (map (\<lambda>k. iteration_trace (PObj (''KMeans'', 0)) (PObj (''DataFrame'', 0))
                                 (int k + 1) (its ! k)) [0..<10])"
    by auto
  with run r show ?thesis by simp
qed

subsection \<open>No cell handles an exception\<close>

text \<open>
  C2. In every code cell of the three notebooks, and in the bodies of the two lambdas
  that the data notebook hands to the library, whatever the library does: when a request
  to the library raises, the cell makes no further request (only a tape that is open
  is left), and the cell's result is that exception, unchanged; when no request raises,
  the cell returns. No cell catches, changes or recovers from an exception.
  (A failing \<open>!wget\<close> is no exception: the cell goes on to \<open>read_csv\<close>, whose exception
  then ends the cell in this way.)
\<close>

theorem notebook_errors_propagate:
  "propagates (seeds_load_cell (logged lib))
   \<and> propagates (preprocess_cell (logged lib) data features)
   \<and> propagates (scatter_cell (logged lib) features_2d)
   \<and> propagates (wcss_cell (logged lib) features)
   \<and> propagates (fashion_load_cell (logged lib))
   \<and> propagates (show_samples_cell (logged lib) torch plt training_data)
   \<and> propagates (dataloader_cell (logged lib) training_data test_data)
   \<and> propagates (first_batch_cell (logged lib) plt train_dataloader)
   \<and> propagates (ds_cell (logged lib))
   \<and> propagates (ds_lambda (logged lib) torch y)
   \<and> propagates (target_transform_cell (logged lib) Lambda)
   \<and> propagates (target_transform_lambda (logged lib) torch y)
   \<and> propagates (tf_import_cell (logged lib))
   \<and> propagates (gradient_cell (logged lib) tf)
   \<and> propagates (gradient_variables_cell (logged lib) tf)"
  by (intro conjI propagates_seeds_load_cell propagates_preprocess_cell
      propagates_scatter_cell propagates_wcss_cell propagates_fashion_load_cell
      propagates_show_samples_cell propagates_dataloader_cell propagates_first_batch_cell
      propagates_ds_cell propagates_ds_lambda propagates_target_transform_cell
      propagates_target_transform_lambda propagates_tf_import_cell
      propagates_gradient_cell propagates_gradient_variables_cell)

lemma offline_seeds_load:
  "seeds_load_cell (logged offline_lib) (False, []) =
     (Inl (Raised ''FileNotFoundError'' ''seeds.csv''), False,
      [(Import ''pandas'', Inr (PObj (''pandas'', 0))),
       (System ''wget https://raw.githubusercontent.com/MicrosoftDocs/mslearn-introduction-to-machine-learning/main/Data/ml-basics/seeds.csv'',
        Inr PNone),
       (GetAttr (PObj (''pandas'', 0)) ''read_csv'', Inr (PObj (''read_csv'', 0))),
       (Call (PObj (''read_csv'', 0)) [Pos (PStr ''seeds.csv'')],
        Inl (Raised ''FileNotFoundError'' ''seeds.csv''))])"
  by (simp add: seeds_load_cell_def run_simps)

text \<open>
  With an older \<open>seeds.csv\<close> in place, the same failing download goes unnoticed: the
  cell returns, on the old file.
\<close>

lemma offline_seeds_load_stale_file:
  "fst (seeds_load_cell (logged offline_lib) (True, []))
     = Inr (PObj (''pandas'', 0), PObj (''DataFrame'', 0), PObj (''DataFrame'', 0),
            PObj (''sample'', 0))"
  by (simp add: seeds_load_cell_def run_simps)

theorem notebook_errors_propagate_witness:
  "fst (seeds_load_cell (logged offline_lib) (False, []))
     = Inl (Raised ''FileNotFoundError'' ''seeds.csv'')
   \<and> raise_is_final (fst (seeds_load_cell (logged offline_lib) (False, [])))
       [(Import ''pandas'', Inr (PObj (''pandas'', 0))),
        (System ''wget https://raw.githubusercontent.com/MicrosoftDocs/mslearn-introduction-to-machine-learning/main/Data/ml-basics/seeds.csv'',
         Inr PNone),
        (GetAttr (PObj (''pandas'', 0)) ''read_csv'', Inr (PObj (''read_csv'', 0))),
        (Call (PObj (''read_csv'', 0)) [Pos (PStr ''seeds.csv'')],
         Inl (Raised ''FileNotFoundError'' ''seeds.csv''))]
   \<and> fst (seeds_load_cell (logged offline_lib) (True, []))
       = Inr (PObj (''pandas'', 0), PObj (''DataFrame'', 0), PObj (''DataFrame'', 0),
              PObj (''sample'', 0))"
proof -
  have "propagates (seeds_load_cell (logged offline_lib))"
    using notebook_errors_propagate [of offline_lib] by blast
  then obtain r w' new where
    run: "seeds_load_cell (logged offline_lib) (False, []) = (r, (w', [] @ new))"
    and final: "raise_is_final r new"
    by (rule propagatesD)
  from run have "r = Inl (Raised ''FileNotFoundError'' ''seeds.csv'')"
    and "new = [(Import ''pandas'', Inr (PObj (''pandas'', 0))),
       (System ''wget https://raw.githubusercontent.com/MicrosoftDocs/mslearn-introduction-to-machine-learning/main/Data/ml-basics/seeds.csv'',
        Inr PNone),
       (GetAttr (PObj (''pandas'', 0)) ''read_csv'', Inr (PObj (''read_csv'', 0))),
       (Call (PObj (''read_csv'', 0)) [Pos (PStr ''seeds.csv'')],
        Inl (Raised ''FileNotFoundError'' ''seeds.csv''))]"
    by (simp_all add: offline_seeds_load)
  with run final offline_seeds_load_stale_file show ?thesis by simp
qed

subsection \<open>The gradient cells\<close>

text \<open>
  The two gradient cells run on TensorFlow, for any literals of a \<open>1 \<times> 2\<close> and a
  \<open>2 \<times> 2\<close> matrix that \<open>float32\<close> can hold, in a kernel where no tape is recording.
\<close>

lemmas tf_defs = call_method_def with_tape_def bind_py_def return_py_def tf_lib_def
  tf_getattr_def tf_call_def tf_constant_def new_tensor_def fresh_def ncols_def rectangular_def
  all_finite_def new_tape_def tf_tape_enter_def tf_tape_exit_def tape_watch_def watch_on_def
  tf_matmul_def read_operand_def run_op_def on_active_def record_on_def tf_reduce_sum_def
  tape_gradient_def backprop_def matmul32_def transpose_m_def column_def dot32_def Let_def
  not_modelled_def raise_py_def float_matrix_def outcome_def






text \<open>
  A literal that \<open>float32\<close> cannot hold ends the cell at its first line, whatever the
  other literal is: \<open>2\<^sup>1\<^sup>2\<^sup>8\<close>, which Python writes \<open>3.402823669209385e+38\<close>, rounds to an
  infinity.
\<close>

lemma round32_overflow: "round32 340282366920938463463374607431768211456 = PosInf"
  unfolding round32_def
  by (subst round_fp_eval [where e = 128]) (simp_all add: powr_eval round_half_even_def Let_def)

lemma gradient_cell_out_of_range:
  "outcome (gradient_cell_on tf_lib (PObj TfModule)
      (float_matrix [[340282366920938463463374607431768211456, 2]]) V) w
     = (Inl (ValueError ''Can't convert Python sequence with out-of-range double to Tensor.''), [])"
  by (simp add: gradient_cell_on_def tf_defs round32_overflow)

end
